theory Spec2Isabelle
  imports Main "HOL-Library.Multiset"
begin

section \<open>Strings and symbol parsing\<close>

text \<open>
  Python strings are modelled as \<open>string\<close> restricted to ASCII: \<open>strip\<close> removes the
  ASCII characters for which \<open>str.isspace\<close> holds (codes 9 to 13, 28 to 31 and 32),
  \<open>lower\<close> and \<open>upper\<close> map the letters A-Z and a-z and leave every other character
  as it is. Python's case mappings of characters beyond ASCII are outside the model.
\<close>

definition isspace :: "char \<Rightarrow> bool" where
  "isspace c = (let n = (of_char c :: nat) in (9 \<le> n \<and> n \<le> 13) \<or> (28 \<le> n \<and> n \<le> 32))"

definition strip :: "string \<Rightarrow> string" where
  "strip s = rev (dropWhile isspace (rev (dropWhile isspace s)))"

definition lower_char :: "char \<Rightarrow> char" where
  "lower_char c =
     (case map_of (zip ''ABCDEFGHIJKLMNOPQRSTUVWXYZ'' ''abcdefghijklmnopqrstuvwxyz'') c of
        Some d \<Rightarrow> d
      | None \<Rightarrow> c)"

definition upper_char :: "char \<Rightarrow> char" where
  "upper_char c =
     (case map_of (zip ''abcdefghijklmnopqrstuvwxyz'' ''ABCDEFGHIJKLMNOPQRSTUVWXYZ'') c of
        Some d \<Rightarrow> d
      | None \<Rightarrow> c)"

definition lower :: "string \<Rightarrow> string" where
  "lower s = map lower_char s"

definition upper :: "string \<Rightarrow> string" where
  "upper s = map upper_char s"

definition startswith :: "string \<Rightarrow> string \<Rightarrow> bool" where
  "startswith s p = (take (length p) s = p)"

text \<open>\<open>split_on sep s\<close> is Python's \<open>s.split(sep)\<close> for a one-character separator.\<close>

fun split_on :: "char \<Rightarrow> string \<Rightarrow> string list" where
  "split_on sep [] = [[]]"
| "split_on sep (c # cs) =
     (if c = sep then [] # split_on sep cs
      else (case split_on sep cs of
              [] \<Rightarrow> [[c]]
            | p # ps \<Rightarrow> (c # p) # ps))"

text \<open>
  The failures of the provider's operations. \<open>ValueError\<close> is the unpacking error of
  \<open>code, exchange = symbol_input.split('.')\<close> when the input holds more than one dot;
  \<open>DateError\<close> is an exception of \<open>pd.to_datetime(...).date()\<close>; \<open>Raised e\<close> is an
  exception \<open>e\<close> of a remote call, passed on as it is; \<open>KeyError\<close> is the lookup of the
  date column in a table that has none; \<open>TypeError\<close> is the comparison of \<open>NaT\<close>
  with a date.
\<close>

datatype py_exception = PyException (str: string)

datatype error = ValueError | DateError | Raised py_exception | KeyError | TypeError

text \<open>\<open>_parse_symbol\<close>: the pair \<open>(pure_code, xq_code)\<close>.\<close>

definition parse_symbol :: "string \<Rightarrow> error + (string \<times> string)" where
  "parse_symbol symbol_input =
     (let s = lower (strip symbol_input) in
      if CHR ''.'' \<in> set s then
        (case split_on (CHR ''.'') s of
           [code, exchange] \<Rightarrow> Inr (code, upper exchange @ code)
         | _ \<Rightarrow> Inl ValueError)
      else if startswith s ''6'' then Inr (s, ''SH'' @ s)
      else if startswith s ''0'' \<or> startswith s ''3'' then Inr (s, ''SZ'' @ s)
      else if startswith s ''4'' \<or> startswith s ''8'' then Inr (s, ''BJ'' @ s)
      else Inr (s, ''SZ'' @ s))"



section \<open>Tables, files and the remote source\<close>

text \<open>
  A date is the ordinal of a \<open>datetime.date\<close>. The date cell of a row is a text that
  parses to a date, a missing date (\<open>NaT\<close>), the value \<open>NaN\<close> that \<open>pd.concat\<close>
  fills in for a column a frame lacks, or a text that \<open>pd.to_datetime\<close> rejects.
  pandas keeps \<open>NaT\<close> and \<open>NaN\<close> apart when it drops duplicates; both are written
  to a file as an empty cell, and \<open>pd.to_datetime\<close> turns both into \<open>NaT\<close>. A row is
  its date cell and the rest of its columns, which the provider never inspects. A \<open>DataFrame\<close> has no column at all
  (\<open>pd.DataFrame()\<close>), has columns but not the date column of its dataset, or has it.
\<close>

type_synonym date = int

datatype cell = Date date | NaT | NaN | Unparsable

type_synonym 'p row = "cell \<times> 'p"

datatype 'p frame = NoColumns | NoDateCol "'p list" | Dated "'p row list"

text \<open>
  A table file is empty (size 0), has a content \<open>pd.read_csv\<close> rejects, or holds a
  frame. A metadata file is not a JSON object, or holds under \<open>covered_start\<close> and
  \<open>covered_end\<close> what \<open>pd.to_datetime(meta.get(key)).date()\<close> yields. In \<open>Meta\<close> each
  bound is a date, or \<open>None\<close> when that expression raises (key missing, text not a
  date). The expression can also yield \<open>NaT\<close> (the stored text is empty): \<open>MetaNaT\<close>
  holds a first bound that is a date or \<open>NaT\<close>, and a second bound that is a date,
  \<open>NaT\<close>, or \<open>None\<close> when the expression raises. \<open>NaT\<close> is truthy, and
  comparing it with a date raises \<open>TypeError\<close>.
  The \<open>last_update\<close> stamp, which the provider writes and never reads, is left out.
\<close>

datatype 'p csv = EmptyFile | Malformed | Csv "'p frame"

datatype bound = On date | NaTBound

datatype meta = BadJson | Meta "date option" "date option" | MetaNaT bound "bound option"

text \<open>A remote call raises or returns a frame.\<close>

datatype 'p response = Raises py_exception | Returns "'p frame"

datatype remote_call =
    Hist string string string string
  | Fhps string
  | Research string
  | Recommend string
  | Valuation string string string
  | Financial string string

text \<open>
  What a call of the provider reads from outside: \<open>pd.to_datetime(s).date()\<close> on a
  date argument (\<open>None\<close> when it raises) and the akshare functions. A date argument
  that parses to \<open>NaT\<close> (an empty text) is outside the model.
\<close>

record 'p env =
  to_datetime :: "string \<Rightarrow> date option"
  stock_zh_a_hist :: "string \<Rightarrow> string \<Rightarrow> string \<Rightarrow> string \<Rightarrow> 'p response"
  stock_fhps_detail_em :: "string \<Rightarrow> 'p response"
  stock_research_report_em :: "string \<Rightarrow> 'p response"
  stock_institute_recommend_detail :: "string \<Rightarrow> 'p response"
  stock_zh_valuation_baidu :: "string \<Rightarrow> string \<Rightarrow> string \<Rightarrow> 'p response"
  stock_financial_report_sina :: "string \<Rightarrow> string \<Rightarrow> 'p response"

text \<open>
  The data directory: per pure code (the name of the stock's directory) the files of
  each dataset, \<open>None\<close> for a file that does not exist, and the remote calls made so
  far, in order. Every pure code is taken to name a directory of its own, and writing a
  file is taken to succeed.
\<close>

record 'p world =
  history_data :: "string \<Rightarrow> 'p csv option"
  history_meta :: "string \<Rightarrow> meta option"
  dividend_info :: "string \<Rightarrow> 'p csv option"
  research_report :: "string \<Rightarrow> 'p csv option"
  institute_recommendations :: "string \<Rightarrow> 'p csv option"
  valuation :: "string \<Rightarrow> string \<Rightarrow> 'p csv option"
  financial :: "string \<Rightarrow> string \<Rightarrow> 'p csv option"
  remote_calls :: "remote_call list"

subsection \<open>The pandas operations the provider uses\<close>

text \<open>
  \<open>to_csv\<close> of a frame without columns writes a line break only, which \<open>read_csv\<close>
  rejects; any other frame is read back as it was written, but for \<open>NaN\<close>, which is
  written as the same empty cell as \<open>NaT\<close>.
\<close>

definition missing_to_NaT :: "'p row \<Rightarrow> 'p row" where
  "missing_to_NaT r = ((case fst r of NaN \<Rightarrow> NaT | c \<Rightarrow> c), snd r)"

definition to_csv :: "'p frame \<Rightarrow> 'p csv" where
  "to_csv df =
     (case df of
        NoColumns \<Rightarrow> Malformed
      | NoDateCol ps \<Rightarrow> Csv (NoDateCol ps)
      | Dated rows \<Rightarrow> Csv (Dated (map missing_to_NaT rows)))"

definition read_csv :: "'p csv \<Rightarrow> 'p frame option" where
  "read_csv f = (case f of Csv df \<Rightarrow> Some df | _ \<Rightarrow> None)"

definition getsize_pos :: "'p csv \<Rightarrow> bool" where
  "getsize_pos f = (case f of EmptyFile \<Rightarrow> False | _ \<Rightarrow> True)"

definition is_date :: "cell \<Rightarrow> bool" where
  "is_date c = (case c of Date d \<Rightarrow> True | _ \<Rightarrow> False)"

definition date_of :: "cell \<Rightarrow> date" where
  "date_of c = (case c of Date d \<Rightarrow> d | _ \<Rightarrow> 0)"

text \<open>\<open>pd.to_datetime(column).dt.date\<close>: raises on a text that is not a date.\<close>

definition to_datetime_col :: "'p row list \<Rightarrow> 'p row list option" where
  "to_datetime_col rows =
     (if list_ex (\<lambda>r. fst r = Unparsable) rows then None else Some (map missing_to_NaT rows))"

text \<open>\<open>pd.to_datetime(column, errors='coerce').dt.date\<close>.\<close>

definition to_datetime_coerce :: "'p row list \<Rightarrow> 'p row list" where
  "to_datetime_coerce rows =
     map (\<lambda>r. ((case fst r of Unparsable \<Rightarrow> NaT | NaN \<Rightarrow> NaT | c \<Rightarrow> c), snd r)) rows"

text \<open>The comparisons of a date column with a date: false on a missing value.\<close>

definition ge_date :: "cell \<Rightarrow> date \<Rightarrow> bool" where
  "ge_date c d = (case c of Date x \<Rightarrow> d \<le> x | _ \<Rightarrow> False)"

definition le_date :: "cell \<Rightarrow> date \<Rightarrow> bool" where
  "le_date c d = (case c of Date x \<Rightarrow> x \<le> d | _ \<Rightarrow> False)"

definition between :: "date \<Rightarrow> date \<Rightarrow> 'p row list \<Rightarrow> 'p row list" where
  "between req_start req_end rows =
     filter (\<lambda>r. ge_date (fst r) req_start \<and> le_date (fst r) req_end) rows"

text \<open>
  \<open>sort_values\<close> on the date column: dates ascending, missing values last in their
  order in the input. Rows with equal dates are taken in their order in the input.
\<close>

definition sort_values :: "'p row list \<Rightarrow> 'p row list" where
  "sort_values rows =
     sort_key (\<lambda>r. date_of (fst r)) (filter (\<lambda>r. is_date (fst r)) rows)
     @ filter (\<lambda>r. \<not> is_date (fst r)) rows"

text \<open>
  \<open>drop_duplicates(subset=[date column], keep='last')\<close>: two missing dates are
  duplicates of each other when both are \<open>NaT\<close> or both are \<open>NaN\<close>.
\<close>

fun drop_duplicates_last :: "'p row list \<Rightarrow> 'p row list" where
  "drop_duplicates_last [] = []"
| "drop_duplicates_last (r # rs) =
     (if fst r \<in> set (map fst rs) then drop_duplicates_last rs
      else r # drop_duplicates_last rs)"

text \<open>
  \<open>pd.concat([cached_df, new_df])\<close> for a cached table with its date column: the rows of
  a new frame without that column get \<open>NaN\<close> as their date.
\<close>

definition pd_concat :: "'p row list \<Rightarrow> 'p frame \<Rightarrow> 'p row list" where
  "pd_concat cached new_df =
     (case new_df of
        NoColumns \<Rightarrow> cached
      | NoDateCol ps \<Rightarrow> cached @ map (Pair NaN) ps
      | Dated rows \<Rightarrow> cached @ rows)"

section \<open>The history cache: get_stock_history\<close>

text \<open>Lines 139 to 150: the covered interval, read only beside a table file of size > 0.\<close>

definition load_coverage :: "meta option \<Rightarrow> 'p csv option \<Rightarrow> bound option \<times> bound option" where
  "load_coverage m f =
     (case m of
        None \<Rightarrow> (None, None)
      | Some meta \<Rightarrow>
          (case f of
             None \<Rightarrow> (None, None)
           | Some file \<Rightarrow>
               if getsize_pos file then
                 (case meta of
                    BadJson \<Rightarrow> (None, None)
                  | Meta cs ce \<Rightarrow>
                      (case cs of
                         None \<Rightarrow> (None, None)
                       | Some s \<Rightarrow> (Some (On s), map_option On ce))
                  | MetaNaT s e \<Rightarrow> (Some s, e))
               else (None, None)))"

text \<open>
  Reading the history table with its date column parsed: \<open>None\<close> when \<open>read_csv\<close> or
  \<open>to_datetime\<close> raises or the column is missing.
\<close>

definition read_dated :: "'p csv \<Rightarrow> 'p row list option" where
  "read_dated file =
     (case read_csv file of
        None \<Rightarrow> None
      | Some df \<Rightarrow> (case df of Dated rows \<Rightarrow> to_datetime_col rows | _ \<Rightarrow> None))"

text \<open>
  The comparisons of a stored bound with a requested date (line 155), and \<open>min\<close> and
  \<open>max\<close> of the two (lines 225 and 227): \<open>None\<close> for the \<open>TypeError\<close> of \<open>NaT\<close>.
\<close>

definition bound_le :: "bound \<Rightarrow> date \<Rightarrow> bool option" where
  "bound_le b d = (case b of On x \<Rightarrow> Some (x \<le> d) | NaTBound \<Rightarrow> None)"

definition bound_ge :: "bound \<Rightarrow> date \<Rightarrow> bool option" where
  "bound_ge b d = (case b of On x \<Rightarrow> Some (x \<ge> d) | NaTBound \<Rightarrow> None)"

definition min_bound :: "bound \<Rightarrow> date \<Rightarrow> date option" where
  "min_bound b d = (case b of On x \<Rightarrow> Some (min x d) | NaTBound \<Rightarrow> None)"

definition max_bound :: "bound \<Rightarrow> date \<Rightarrow> date option" where
  "max_bound b d = (case b of On x \<Rightarrow> Some (max x d) | NaTBound \<Rightarrow> None)"

text \<open>
  Lines 152 to 166: \<open>Inr (Some rows)\<close> for the rows returned on a full hit,
  \<open>Inr None\<close> when the call goes on, \<open>Inl TypeError\<close> when the comparison of line 155,
  which stands in no \<open>try\<close>, raises. The second comparison is made only when the first
  holds.
\<close>

definition cache_hit ::
  "bound option \<Rightarrow> bound option \<Rightarrow> date \<Rightarrow> date \<Rightarrow> 'p csv option
   \<Rightarrow> error + 'p row list option" where
  "cache_hit covered_start covered_end req_start req_end f =
     (case covered_start of
        None \<Rightarrow> Inr None
      | Some cs \<Rightarrow>
          (case covered_end of
             None \<Rightarrow> Inr None
           | Some ce \<Rightarrow>
               (case bound_le cs req_start of
                  None \<Rightarrow> Inl TypeError
                | Some False \<Rightarrow> Inr None
                | Some True \<Rightarrow>
                    (case bound_ge ce req_end of
                       None \<Rightarrow> Inl TypeError
                     | Some False \<Rightarrow> Inr None
                     | Some True \<Rightarrow>
                         (case f of
                            None \<Rightarrow> Inr None
                          | Some file \<Rightarrow>
                              (case read_dated file of
                                 None \<Rightarrow> Inr None
                               | Some rows \<Rightarrow>
                                   Inr (Some (sort_values (between req_start req_end rows)))))))))"

text \<open>Lines 169 to 184: the cached table loaded for the merge.\<close>

definition load_cached :: "'p csv option \<Rightarrow> 'p row list option" where
  "load_cached f =
     (case f of
        None \<Rightarrow> None
      | Some file \<Rightarrow> if getsize_pos file then read_dated file else None)"

text \<open>Lines 198 to 202: the date column of the fetched frame, parsed when it is there.\<close>

definition parse_new :: "'p frame \<Rightarrow> 'p frame option" where
  "parse_new new_df =
     (case new_df of
        Dated rows \<Rightarrow> map_option Dated (to_datetime_col rows)
      | _ \<Rightarrow> Some new_df)"

text \<open>Lines 204 to 212.\<close>

definition merge_cache :: "'p row list option \<Rightarrow> 'p frame \<Rightarrow> 'p frame" where
  "merge_cache cached_df new_df =
     (case cached_df of
        Some cached \<Rightarrow> Dated (sort_values (drop_duplicates_last (pd_concat cached new_df)))
      | None \<Rightarrow> new_df)"

definition remove_dash :: "string \<Rightarrow> string" where
  "remove_dash s = filter (\<lambda>c. c \<noteq> CHR ''-'') s"

text \<open>
  Lines 221 to 227: the new coverage, \<open>None\<close> when \<open>min\<close> or \<open>max\<close> raises.
\<close>

definition new_coverage ::
  "bound option \<Rightarrow> bound option \<Rightarrow> date \<Rightarrow> date \<Rightarrow> (date \<times> date) option" where
  "new_coverage covered_start covered_end req_start req_end =
     (case (case covered_start of None \<Rightarrow> Some req_start | Some cs \<Rightarrow> min_bound cs req_start) of
        None \<Rightarrow> None
      | Some new_covered_start \<Rightarrow>
          (case (case covered_end of None \<Rightarrow> Some req_end | Some ce \<Rightarrow> max_bound ce req_end) of
             None \<Rightarrow> None
           | Some new_covered_end \<Rightarrow> Some (new_covered_start, new_covered_end)))"

text \<open>
  Lines 169 to 243: the remote call, the merge, the write of the table, the new
  coverage, the write of the metadata and the slice. An exception after the write of
  the table leaves the table written.
\<close>

definition fetch_and_merge ::
  "'p env \<Rightarrow> string \<Rightarrow> string \<Rightarrow> string \<Rightarrow> string \<Rightarrow> date \<Rightarrow> date \<Rightarrow>
   bound option \<Rightarrow> bound option \<Rightarrow> 'p world \<Rightarrow> (error + 'p frame) \<times> 'p world" where
  "fetch_and_merge env pure_code start_date end_date adjust req_start req_end
       covered_start covered_end w =
     (let cached_df = load_cached (history_data w pure_code);
          w1 = w\<lparr>remote_calls := remote_calls w
                  @ [Hist pure_code (remove_dash start_date) (remove_dash end_date) adjust]\<rparr>
      in case stock_zh_a_hist env pure_code (remove_dash start_date) (remove_dash end_date) adjust of
           Raises e \<Rightarrow> (Inl (Raised e), w1)
         | Returns fetched \<Rightarrow>
             (case parse_new fetched of
                None \<Rightarrow> (Inl DateError, w1)
              | Some new_df \<Rightarrow>
                  (let final_df = merge_cache cached_df new_df;
                       w2 = w1\<lparr>history_data :=
                                 (history_data w1)(pure_code := Some (to_csv final_df))\<rparr>
                   in case new_coverage covered_start covered_end req_start req_end of
                        None \<Rightarrow> (Inl TypeError, w2)
                      | Some (new_covered_start, new_covered_end) \<Rightarrow>
                          (let w3 = w2\<lparr>history_meta := (history_meta w2)
                                      (pure_code :=
                                         Some (Meta (Some new_covered_start) (Some new_covered_end)))\<rparr>
                           in case final_df of
                                Dated rows \<Rightarrow> (Inr (Dated (between req_start req_end rows)), w3)
                              | _ \<Rightarrow> (Inl KeyError, w3)))))"

definition get_stock_history ::
  "'p env \<Rightarrow> string \<Rightarrow> string \<Rightarrow> string \<Rightarrow> string \<Rightarrow> 'p world \<Rightarrow> (error + 'p frame) \<times> 'p world" where
  "get_stock_history env symbol start_date end_date adjust w =
     (case parse_symbol symbol of
        Inl e \<Rightarrow> (Inl e, w)
      | Inr (pure_code, xq_code) \<Rightarrow>
          (case to_datetime env start_date of
             None \<Rightarrow> (Inl DateError, w)
           | Some req_start \<Rightarrow>
               (case to_datetime env end_date of
                  None \<Rightarrow> (Inl DateError, w)
                | Some req_end \<Rightarrow>
                    (case load_coverage (history_meta w pure_code) (history_data w pure_code) of
                       (covered_start, covered_end) \<Rightarrow>
                         (case cache_hit covered_start covered_end req_start req_end
                                 (history_data w pure_code) of
                            Inl e \<Rightarrow> (Inl e, w)
                          | Inr (Some rows) \<Rightarrow> (Inr (Dated rows), w)
                          | Inr None \<Rightarrow>
                              fetch_and_merge env pure_code start_date end_date adjust
                                req_start req_end covered_start covered_end w)))))"

section \<open>The snapshot caches\<close>

text \<open>An optional date argument counts when it is neither \<open>None\<close> nor empty.\<close>

definition truthy :: "string option \<Rightarrow> bool" where
  "truthy s = (case s of None \<Rightarrow> False | Some t \<Rightarrow> t \<noteq> [])"

text \<open>
  The bound an optional date argument gives: \<open>Some None\<close> for no bound,
  \<open>Some (Some d)\<close> for the date \<open>d\<close>, \<open>None\<close> when \<open>pd.to_datetime\<close> raises.
\<close>

definition parse_bound :: "'p env \<Rightarrow> string option \<Rightarrow> date option option" where
  "parse_bound env s =
     (case s of
        None \<Rightarrow> Some None
      | Some t \<Rightarrow>
          if t = [] then Some None
          else (case to_datetime env t of None \<Rightarrow> None | Some d \<Rightarrow> Some (Some d)))"

definition in_bounds :: "date option \<Rightarrow> date option \<Rightarrow> cell \<Rightarrow> bool" where
  "in_bounds lo hi c =
     ((case lo of None \<Rightarrow> True | Some d \<Rightarrow> ge_date c d)
      \<and> (case hi of None \<Rightarrow> True | Some d \<Rightarrow> le_date c d))"

text \<open>
  The filter of \<open>get_stock_dividend_info\<close> (lines 283 to 315) and of
  \<open>get_stock_research_report\<close> (lines 356 to 375), on the frame in memory: the date
  column is coerced, then the mask is applied; an exception on the way leaves the frame
  unfiltered.
\<close>

definition filter_dates :: "'p env \<Rightarrow> string option \<Rightarrow> string option \<Rightarrow> 'p frame \<Rightarrow> 'p frame" where
  "filter_dates env start_date end_date df =
     (if truthy start_date \<or> truthy end_date then
        (case df of
           Dated rows \<Rightarrow>
             (let coerced = to_datetime_coerce rows in
              case parse_bound env start_date of
                None \<Rightarrow> Dated coerced
              | Some lo \<Rightarrow>
                  (case parse_bound env end_date of
                     None \<Rightarrow> Dated coerced
                   | Some hi \<Rightarrow> Dated (filter (\<lambda>r. in_bounds lo hi (fst r)) coerced)))
         | _ \<Rightarrow> df)
      else df)"

text \<open>The cached frame of a snapshot dataset: read unless a refresh is forced.\<close>

definition load_snapshot :: "bool \<Rightarrow> 'p csv option \<Rightarrow> 'p frame option" where
  "load_snapshot force_update f =
     (if \<not> force_update then (case f of None \<Rightarrow> None | Some file \<Rightarrow> read_csv file)
      else None)"

definition get_stock_dividend_info ::
  "'p env \<Rightarrow> string \<Rightarrow> string option \<Rightarrow> string option \<Rightarrow> bool \<Rightarrow> 'p world
   \<Rightarrow> (error + 'p frame) \<times> 'p world" where
  "get_stock_dividend_info env symbol start_date end_date force_update w =
     (case parse_symbol symbol of
        Inl e \<Rightarrow> (Inl e, w)
      | Inr (pure_code, xq_code) \<Rightarrow>
          (case load_snapshot force_update (dividend_info w pure_code) of
             Some df \<Rightarrow> (Inr (filter_dates env start_date end_date df), w)
           | None \<Rightarrow>
               (let w1 = w\<lparr>remote_calls := remote_calls w @ [Fhps pure_code]\<rparr>
                in case stock_fhps_detail_em env pure_code of
                     Raises e \<Rightarrow> (Inl (Raised e), w1)
                   | Returns df \<Rightarrow>
                       (Inr (filter_dates env start_date end_date df),
                        w1\<lparr>dividend_info := (dividend_info w1)(pure_code := Some (to_csv df))\<rparr>))))"

definition get_stock_research_report ::
  "'p env \<Rightarrow> string \<Rightarrow> string option \<Rightarrow> string option \<Rightarrow> bool \<Rightarrow> 'p world
   \<Rightarrow> (error + 'p frame) \<times> 'p world" where
  "get_stock_research_report env symbol start_date end_date force_update w =
     (case parse_symbol symbol of
        Inl e \<Rightarrow> (Inl e, w)
      | Inr (pure_code, xq_code) \<Rightarrow>
          (case load_snapshot force_update (research_report w pure_code) of
             Some df \<Rightarrow> (Inr (filter_dates env start_date end_date df), w)
           | None \<Rightarrow>
               (let w1 = w\<lparr>remote_calls := remote_calls w @ [Research pure_code]\<rparr>
                in case stock_research_report_em env pure_code of
                     Raises e \<Rightarrow> (Inl (Raised e), w1)
                   | Returns df \<Rightarrow>
                       (Inr (filter_dates env start_date end_date df),
                        w1\<lparr>research_report := (research_report w1)(pure_code := Some (to_csv df))\<rparr>))))"

text \<open>\<open>contains s sub\<close> is Python's \<open>sub in s\<close>.\<close>

fun contains :: "string \<Rightarrow> string \<Rightarrow> bool" where
  "contains [] sub = (sub = [])"
| "contains (c # cs) sub = (startswith (c # cs) sub \<or> contains cs sub)"

definition get_stock_institute_recommendations ::
  "'p env \<Rightarrow> string \<Rightarrow> bool \<Rightarrow> 'p world \<Rightarrow> (error + 'p frame) \<times> 'p world" where
  "get_stock_institute_recommendations env symbol force_update w =
     (case parse_symbol symbol of
        Inl e \<Rightarrow> (Inl e, w)
      | Inr (pure_code, xq_code) \<Rightarrow>
          (case load_snapshot force_update (institute_recommendations w pure_code) of
             Some df \<Rightarrow> (Inr df, w)
           | None \<Rightarrow>
               (let sina_symbol = lower xq_code;
                    w1 = w\<lparr>remote_calls := remote_calls w @ [Recommend sina_symbol]\<rparr>
                in case stock_institute_recommend_detail env sina_symbol of
                     Returns df \<Rightarrow>
                       (Inr df,
                        w1\<lparr>institute_recommendations :=
                             (institute_recommendations w1)(pure_code := Some (to_csv df))\<rparr>)
                   | Raises e \<Rightarrow>
                       if contains (str e) ''Empty DataFrame'' \<or> contains (str e) ''No tables found''
                       then (Inr NoColumns, w1)
                       else (Inl (Raised e), w1))))"

text \<open>\<open>s.replace(a, b)\<close> for a one-character \<open>a\<close>.\<close>

definition replace_char :: "char \<Rightarrow> string \<Rightarrow> string \<Rightarrow> string" where
  "replace_char a b s = concat (map (\<lambda>c. if c = a then b else [c]) s)"

text \<open>
  \<open>get_stock_valuation\<close>: the date column of this dataset is \<open>date\<close>, parsed strictly
  on both paths. The remote call is always made with one fixed period, the Chinese word
  for "all", written \<open>''all''\<close> here; the \<open>period\<close> argument of the operation plays
  no part and is left out.
\<close>

definition strict_dates :: "'p frame \<Rightarrow> 'p frame option" where
  "strict_dates df =
     (case df of Dated rows \<Rightarrow> map_option Dated (to_datetime_col rows) | _ \<Rightarrow> Some df)"

definition get_stock_valuation ::
  "'p env \<Rightarrow> string \<Rightarrow> string \<Rightarrow> bool \<Rightarrow> 'p world \<Rightarrow> (error + 'p frame) \<times> 'p world" where
  "get_stock_valuation env symbol indicator force_update w =
     (case parse_symbol symbol of
        Inl e \<Rightarrow> (Inl e, w)
      | Inr (pure_code, xq_code) \<Rightarrow>
          (let safe_indicator =
                 replace_char (CHR '' '') ''_''
                   (replace_char (CHR '')'') [] (replace_char (CHR ''('') [] indicator))
           in case Option.bind (load_snapshot force_update (valuation w pure_code safe_indicator))
                     strict_dates of
                Some df \<Rightarrow> (Inr df, w)
              | None \<Rightarrow>
                  (let w1 = w\<lparr>remote_calls := remote_calls w @ [Valuation pure_code indicator ''all'']\<rparr>
                   in case stock_zh_valuation_baidu env pure_code indicator ''all'' of
                        Raises e \<Rightarrow> (Inl (Raised e), w1)
                      | Returns fetched \<Rightarrow>
                          (case strict_dates fetched of
                             None \<Rightarrow> (Inl DateError, w1)
                           | Some df \<Rightarrow>
                               (Inr df,
                                w1\<lparr>valuation := (valuation w1)
                                     (pure_code := (valuation w1 pure_code)
                                        (safe_indicator := Some (to_csv df)))\<rparr>)))))"

definition get_stock_financial_report ::
  "'p env \<Rightarrow> string \<Rightarrow> string \<Rightarrow> bool \<Rightarrow> 'p world \<Rightarrow> (error + 'p frame) \<times> 'p world" where
  "get_stock_financial_report env symbol report_type force_update w =
     (case parse_symbol symbol of
        Inl e \<Rightarrow> (Inl e, w)
      | Inr (pure_code, xq_code) \<Rightarrow>
          (let safe_type = replace_char (CHR '' '') ''_'' report_type
           in case load_snapshot force_update (financial w pure_code safe_type) of
                Some df \<Rightarrow> (Inr df, w)
              | None \<Rightarrow>
                  (let sina_symbol = lower xq_code;
                       w1 = w\<lparr>remote_calls := remote_calls w @ [Financial sina_symbol report_type]\<rparr>
                   in case stock_financial_report_sina env sina_symbol report_type of
                        Raises e \<Rightarrow> (Inl (Raised e), w1)
                      | Returns df \<Rightarrow>
                          (Inr df,
                           w1\<lparr>financial := (financial w1)
                                (pure_code := (financial w1 pure_code)
                                   (safe_type := Some (to_csv df)))\<rparr>))))"


section \<open>Sequences of calls\<close>

text \<open>
  A call of \<open>get_stock_history\<close> with what the remote source answers at that moment;
  \<open>run\<close> makes the calls one after the other on the same data directory.
\<close>

datatype 'p call = Call "'p env" string string string string

fun run :: "'p call list \<Rightarrow> 'p world \<Rightarrow> 'p world" where
  "run [] w = w"
| "run (Call env symbol start_date end_date adjust # calls) w =
     run calls (snd (get_stock_history env symbol start_date end_date adjust w))"

section \<open>Example data\<close>

text \<open>
  The dates of the examples with their ordinals (\<open>date(2023, 1, 1).toordinal()\<close> is
  738521), an environment whose remote functions all give the same answer, and data
  directories: an empty one, one with a history table covering January 2023, one whose
  table file is empty beside its metadata, one whose table file is not a table, one
  whose table has a row without a date, and one whose stored covered start is \<open>NaT\<close>.
\<close>

definition example_dates :: "string \<Rightarrow> date option" where
  "example_dates =
     map_of [(''2023-01-01'', 738521), (''2023-01-15'', 738535), (''2023-01-20'', 738540),
             (''2023-01-31'', 738551), (''2023-02-01'', 738552), (''2023-02-10'', 738561)]"

definition example_env :: "nat response \<Rightarrow> nat env" where
  "example_env answer =
     \<lparr>to_datetime = example_dates,
      stock_zh_a_hist = (\<lambda>symbol start_date end_date adjust. answer),
      stock_fhps_detail_em = (\<lambda>symbol. answer),
      stock_research_report_em = (\<lambda>symbol. answer),
      stock_institute_recommend_detail = (\<lambda>symbol. answer),
      stock_zh_valuation_baidu = (\<lambda>symbol indicator period. answer),
      stock_financial_report_sina = (\<lambda>stock symbol. answer)\<rparr>"

definition empty_world :: "nat world" where
  "empty_world =
     \<lparr>history_data = (\<lambda>code. None), history_meta = (\<lambda>code. None),
      dividend_info = (\<lambda>code. None), research_report = (\<lambda>code. None),
      institute_recommendations = (\<lambda>code. None),
      valuation = (\<lambda>code name. None), financial = (\<lambda>code name. None),
      remote_calls = []\<rparr>"

definition january_rows :: "nat row list" where
  "january_rows = [(Date 738540, 3), (Date 738521, 1), (Date 738535, 2), (Date 738551, 4)]"

definition january_world :: "nat world" where
  "january_world =
     empty_world\<lparr>history_data := (\<lambda>code. None)(''000858'' := Some (Csv (Dated january_rows))),
                 history_meta := (\<lambda>code. None)(''000858'' := Some (Meta (Some 738521) (Some 738551))),
                 dividend_info := (\<lambda>code. None)(''000858'' := Some (Csv (Dated january_rows))),
                 research_report := (\<lambda>code. None)(''000858'' := Some (Csv (Dated january_rows))),
                 institute_recommendations :=
                   (\<lambda>code. None)(''000858'' := Some (Csv (Dated january_rows))),
                 valuation := (\<lambda>code name. None)
                   (''000858'' := (\<lambda>name. None)(''pe'' := Some (Csv (Dated january_rows)))),
                 financial := (\<lambda>code name. None)
                   (''000858'' := (\<lambda>name. None)(''income'' := Some (Csv (Dated january_rows))))\<rparr>"

definition truncated_world :: "nat world" where
  "truncated_world = january_world\<lparr>history_data := (\<lambda>code. None)(''000858'' := Some EmptyFile)\<rparr>"

definition malformed_world :: "nat world" where
  "malformed_world = january_world\<lparr>history_data := (\<lambda>code. None)(''000858'' := Some Malformed)\<rparr>"

definition february_rows :: "nat row list" where
  "february_rows = [(Date 738552, 5), (Date 738561, 6)]"


definition undated_rows :: "nat row list" where
  "undated_rows = [(Date 738521, 1), (NaT, 9)]"

definition undated_world :: "nat world" where
  "undated_world = january_world\<lparr>history_data := (\<lambda>code. None)(''000858'' := Some (Csv (Dated undated_rows)))\<rparr>"

definition nat_world :: "nat world" where
  "nat_world = january_world\<lparr>history_meta :=
       (\<lambda>code. None)(''000858'' := Some (MetaNaT NaTBound (Some (On 738551))))\<rparr>"

definition duplicate_rows :: "nat row list" where
  "duplicate_rows = [(Date 738522, 2), (Date 738521, 1), (Date 738521, 7)]"

definition overlap_rows :: "nat row list" where
  "overlap_rows = [(Date 738551, 40), (Date 738552, 5), (Date 738561, 6)]"

section \<open>Symbol parsing\<close>

lemmas parse_symbol_eval =
  parse_symbol_def strip_def lower_def upper_def lower_char_def upper_char_def isspace_def
  startswith_def Let_def

text \<open>The two cases of the repository's own test of \<open>_parse_symbol\<close>.\<close>

lemma parse_symbol_test_sz: "parse_symbol ''000858.sz'' = Inr (''000858'', ''SZ000858'')"
  by (simp add: parse_symbol_eval)

lemma parse_symbol_test_sh: "parse_symbol ''600519.sh'' = Inr (''600519'', ''SH600519'')"
  by (simp add: parse_symbol_eval)

lemma parse_symbol_bare: "parse_symbol ''000858'' = Inr (''000858'', ''SZ000858'')"
  by (simp add: parse_symbol_eval)

lemma parse_symbol_two_dots: "parse_symbol ''000858.sz.x'' = Inl ValueError"
  by (simp add: parse_symbol_eval)

lemma split_on_no_sep: "sep \<notin> set s \<Longrightarrow> split_on sep s = [s]"
  by (induction s) auto

lemma split_on_one_sep:
  "sep \<notin> set code \<Longrightarrow> sep \<notin> set exchange \<Longrightarrow>
   split_on sep (code @ sep # exchange) = [code, exchange]"
  by (induction code) (auto simp: split_on_no_sep)

lemma startswith_char: "startswith s [c] \<longleftrightarrow> (\<exists>r. s = c # r)"
  by (cases s) (auto simp: startswith_def)

text \<open>
  C9. \<open>parse_symbol\<close> is a function of its input alone. With \<open>s\<close> the input trimmed
  and lower-cased: when \<open>s\<close> has no dot, the pure code is \<open>s\<close> and the qualified code
  is \<open>s\<close> prefixed by SH when \<open>s\<close> starts with 6, by SZ when it starts with 0 or 3, by
  BJ when it starts with 4 or 8, and by SZ for any other first character (and for the
  empty string); when \<open>s\<close> is a code, one dot and a suffix, the pure code is the code
  and the qualified code is the upper-cased suffix followed by the code.
\<close>

theorem parse_symbol_qualified_code:
  assumes s: "s = lower (strip symbol_input)"
  shows "(CHR ''.'' \<notin> set s \<longrightarrow>
            (\<forall>r. s = CHR ''6'' # r \<longrightarrow> parse_symbol symbol_input = Inr (s, ''SH'' @ s))
          \<and> (\<forall>r. s = CHR ''0'' # r \<or> s = CHR ''3'' # r \<longrightarrow>
                 parse_symbol symbol_input = Inr (s, ''SZ'' @ s))
          \<and> (\<forall>r. s = CHR ''4'' # r \<or> s = CHR ''8'' # r \<longrightarrow>
                 parse_symbol symbol_input = Inr (s, ''BJ'' @ s))
          \<and> ((\<forall>c r. s = c # r \<longrightarrow> c \<notin> set ''60348'') \<longrightarrow>
                 parse_symbol symbol_input = Inr (s, ''SZ'' @ s)))
       \<and> (\<forall>code exchange.
             s = code @ ''.'' @ exchange \<and> CHR ''.'' \<notin> set code \<and> CHR ''.'' \<notin> set exchange \<longrightarrow>
             parse_symbol symbol_input = Inr (code, upper exchange @ code))"
proof -
  have sh: "parse_symbol symbol_input = Inr (s, ''SH'' @ s)"
    if "CHR ''.'' \<notin> set s" "s = CHR ''6'' # r" for r
    using that s by (simp add: parse_symbol_def Let_def startswith_def)
  have sz: "parse_symbol symbol_input = Inr (s, ''SZ'' @ s)"
    if "CHR ''.'' \<notin> set s" "s = CHR ''0'' # r \<or> s = CHR ''3'' # r" for r
    using that s by (auto simp: parse_symbol_def Let_def startswith_def)
  have bj: "parse_symbol symbol_input = Inr (s, ''BJ'' @ s)"
    if "CHR ''.'' \<notin> set s" "s = CHR ''4'' # r \<or> s = CHR ''8'' # r" for r
    using that s by (auto simp: parse_symbol_def Let_def startswith_def)
  have other: "parse_symbol symbol_input = Inr (s, ''SZ'' @ s)"
    if "CHR ''.'' \<notin> set s" "\<forall>c r. s = c # r \<longrightarrow> c \<notin> set ''60348''"
  proof -
    have "\<not> startswith s [c]" if "c \<in> set ''60348''" for c
      using that \<open>\<forall>c r. s = c # r \<longrightarrow> c \<notin> set ''60348''\<close> unfolding startswith_char by blast
    then have "\<not> startswith s ''6''" "\<not> startswith s ''0''" "\<not> startswith s ''3''"
      "\<not> startswith s ''4''" "\<not> startswith s ''8''"
      by simp_all
    with that(1) s show ?thesis by (simp add: parse_symbol_def Let_def)
  qed
  have dot: "parse_symbol symbol_input = Inr (code, upper exchange @ code)"
    if "s = code @ ''.'' @ exchange" "CHR ''.'' \<notin> set code" "CHR ''.'' \<notin> set exchange"
    for code exchange
  proof -
    have "split_on (CHR ''.'') s = [code, exchange]"
      using that by (simp add: split_on_one_sep)
    moreover have "CHR ''.'' \<in> set s" using that(1) by simp
    ultimately show ?thesis using s by (simp add: parse_symbol_def Let_def)
  qed
  show ?thesis using sh sz bj other dot by blast
qed

theorem parse_symbol_qualified_code_witness:
  "parse_symbol ''600519'' = Inr (''600519'', ''SH600519'')
   \<and> parse_symbol ''  000858 '' = Inr (''000858'', ''SZ000858'')
   \<and> parse_symbol ''300750'' = Inr (''300750'', ''SZ300750'')
   \<and> parse_symbol ''430047'' = Inr (''430047'', ''BJ430047'')
   \<and> parse_symbol ''830799'' = Inr (''830799'', ''BJ830799'')
   \<and> parse_symbol ''900901'' = Inr (''900901'', ''SZ900901'')
   \<and> parse_symbol '' 000858.SZ'' = Inr (''000858'', ''SZ000858'')"
proof -
  have l: "lower (strip ''600519'') = ''600519''" "lower (strip ''  000858 '') = ''000858''"
    "lower (strip ''300750'') = ''300750''" "lower (strip ''430047'') = ''430047''"
    "lower (strip ''830799'') = ''830799''" "lower (strip ''900901'') = ''900901''"
    by (simp_all add: strip_def lower_def lower_char_def isspace_def)
  have sh: "parse_symbol ''600519'' = Inr (''600519'', ''SH600519'')"
    using parse_symbol_qualified_code [of "''600519''" "''600519''", THEN conjunct1]
    by (simp add: l)
  have sz0: "parse_symbol ''  000858 '' = Inr (''000858'', ''SZ000858'')"
    using parse_symbol_qualified_code [of "''000858''" "''  000858 ''", THEN conjunct1]
    by (simp add: l)
  have sz3: "parse_symbol ''300750'' = Inr (''300750'', ''SZ300750'')"
    using parse_symbol_qualified_code [of "''300750''" "''300750''", THEN conjunct1]
    by (simp add: l)
  have bj4: "parse_symbol ''430047'' = Inr (''430047'', ''BJ430047'')"
    using parse_symbol_qualified_code [of "''430047''" "''430047''", THEN conjunct1]
    by (simp add: l)
  have bj8: "parse_symbol ''830799'' = Inr (''830799'', ''BJ830799'')"
    using parse_symbol_qualified_code [of "''830799''" "''830799''", THEN conjunct1]
    by (simp add: l)
  have other: "parse_symbol ''900901'' = Inr (''900901'', ''SZ900901'')"
    using parse_symbol_qualified_code [of "''900901''" "''900901''", THEN conjunct1]
    by (simp add: l)
  have s: "''000858.sz'' = lower (strip '' 000858.SZ'')"
    by (simp add: strip_def lower_def lower_char_def isspace_def)
  have parts: "''000858.sz'' = ''000858'' @ ''.'' @ ''sz''
      \<and> CHR ''.'' \<notin> set ''000858'' \<and> CHR ''.'' \<notin> set ''sz''"
    by simp
  have "parse_symbol '' 000858.SZ'' = Inr (''000858'', upper ''sz'' @ ''000858'')"
    using parse_symbol_qualified_code [OF s] parts by blast
  then have dotted: "parse_symbol '' 000858.SZ'' = Inr (''000858'', ''SZ000858'')"
    by (simp add: upper_def upper_char_def)
  show ?thesis
    by (intro conjI sh sz0 sz3 bj4 bj8 other dotted)
qed

section \<open>Full hits\<close>

lemma between_is_date: "r \<in> set (between a b rows) \<Longrightarrow> is_date (fst r)"
  by (auto simp: between_def ge_date_def is_date_def split: cell.splits)

lemma sort_values_dates:
  "list_all (\<lambda>r. is_date (fst r)) rows \<Longrightarrow> sort_values rows = sort_key (\<lambda>r. date_of (fst r)) rows"
  by (simp add: sort_values_def list_all_iff)

lemma mset_sort_values: "mset (sort_values rows) = mset rows"
  by (simp add: sort_values_def)

lemma set_sort_values: "set (sort_values rows) = set rows"
  by (auto simp: sort_values_def)

lemma between_eq:
  "between a b rows = filter (\<lambda>r. case fst r of Date d \<Rightarrow> a \<le> d \<and> d \<le> b | _ \<Rightarrow> False) rows"
  unfolding between_def ge_date_def le_date_def
  by (rule filter_cong) (auto split: cell.splits)

lemma sorted_sort_values_between:
  "sorted (map (\<lambda>r. date_of (fst r)) (sort_values (between a b rows)))"
proof -
  have "list_all (\<lambda>r. is_date (fst r)) (between a b rows)"
    by (simp add: list_all_iff between_is_date)
  then show ?thesis by (simp add: sort_values_dates)
qed

lemma to_datetime_col_ok:
  "Unparsable \<notin> fst ` set rows \<Longrightarrow> to_datetime_col rows = Some (map missing_to_NaT rows)"
  by (force simp: to_datetime_col_def list_ex_iff)

lemma to_datetime_col_Some:
  "to_datetime_col rows = Some rows' \<Longrightarrow>
   rows' = map missing_to_NaT rows \<and> Unparsable \<notin> fst ` set rows"
  by (force simp: to_datetime_col_def list_ex_iff split: if_splits)

lemma between_missing: "between a b (map missing_to_NaT rows) = between a b rows"
  by (induction rows)
     (auto simp: between_def missing_to_NaT_def ge_date_def le_date_def split: cell.splits)

lemma missing_to_NaT_cells:
  "fst ` set (map missing_to_NaT rows) \<subseteq> insert NaT (fst ` set rows) - {NaN}"
  by (induction rows) (auto simp: missing_to_NaT_def split: cell.splits)

lemma missing_to_NaT_id: "NaN \<notin> fst ` set rows \<Longrightarrow> map missing_to_NaT rows = rows"
  by (induction rows) (auto simp: missing_to_NaT_def split: cell.splits)

lemmas example_eval = example_env_def example_dates_def

text \<open>
  C1. When the stored metadata covers the requested interval and the persisted table is
  readable, \<open>get_stock_history\<close> returns the persisted rows whose date lies in the
  requested interval, in ascending order of date, and leaves the data directory and the
  list of remote calls as they were: no remote call is made. A second call with the
  same arguments therefore returns the same rows, again without a remote call.
\<close>

theorem full_hit_no_fetch:
  assumes sym: "parse_symbol symbol = Inr (pure_code, xq_code)"
      and rs: "to_datetime env start_date = Some req_start"
      and re: "to_datetime env end_date = Some req_end"
      and meta: "history_meta w pure_code = Some (Meta (Some covered_start) (Some covered_end))"
      and cov: "covered_start \<le> req_start" "req_end \<le> covered_end"
      and tab: "history_data w pure_code = Some (Csv (Dated rows))"
      and ok: "Unparsable \<notin> fst ` set rows"
  shows "\<exists>out. get_stock_history env symbol start_date end_date adjust w = (Inr (Dated out), w)
           \<and> mset out = mset (filter (\<lambda>r. case fst r of Date d \<Rightarrow> req_start \<le> d \<and> d \<le> req_end
                                            | _ \<Rightarrow> False) rows)
           \<and> sorted (map (\<lambda>r. date_of (fst r)) out)
           \<and> get_stock_history env symbol start_date end_date adjust
                (snd (get_stock_history env symbol start_date end_date adjust w))
              = (Inr (Dated out), w)"
proof -
  let ?out = "sort_values (between req_start req_end rows)"
  have cov': "load_coverage (history_meta w pure_code) (history_data w pure_code)
              = (Some (On covered_start), Some (On covered_end))"
    by (simp add: load_coverage_def meta tab getsize_pos_def)
  have ok': "to_datetime_col rows = Some (map missing_to_NaT rows)"
    using ok by (rule to_datetime_col_ok)
  have hit: "cache_hit (Some (On covered_start)) (Some (On covered_end)) req_start req_end
               (history_data w pure_code) = Inr (Some ?out)"
    using cov
    by (simp add: cache_hit_def bound_le_def bound_ge_def tab read_dated_def read_csv_def ok'
        between_missing)
  have call: "get_stock_history env symbol start_date end_date adjust w = (Inr (Dated ?out), w)"
    by (simp add: get_stock_history_def sym rs re cov' hit)
  have "mset ?out = mset (filter (\<lambda>r. case fst r of Date d \<Rightarrow> req_start \<le> d \<and> d \<le> req_end | _ \<Rightarrow> False) rows)"
    by (simp only: mset_sort_values between_eq)
  with call sorted_sort_values_between show ?thesis by auto
qed

theorem full_hit_no_fetch_witness:
  "\<exists>out. get_stock_history (example_env (Raises (PyException ''offline''))) ''000858.sz''
             ''2023-01-15'' ''2023-01-20'' ''qfq'' january_world
           = (Inr (Dated out), january_world)
       \<and> mset out = mset (filter (\<lambda>r. case fst r of Date d \<Rightarrow> 738535 \<le> d \<and> d \<le> 738540
                                      | _ \<Rightarrow> False) january_rows)
       \<and> sorted (map (\<lambda>r. date_of (fst r)) out)
       \<and> get_stock_history (example_env (Raises (PyException ''offline''))) ''000858.sz''
            ''2023-01-15'' ''2023-01-20'' ''qfq''
            (snd (get_stock_history (example_env (Raises (PyException ''offline''))) ''000858.sz''
                   ''2023-01-15'' ''2023-01-20'' ''qfq'' january_world))
          = (Inr (Dated out), january_world)"
proof (rule full_hit_no_fetch)
  show "parse_symbol ''000858.sz'' = Inr (''000858'', ''SZ000858'')"
    by (rule parse_symbol_test_sz)
  show "to_datetime (example_env (Raises (PyException ''offline''))) ''2023-01-15'' = Some 738535"
    by (simp add: example_eval)
  show "to_datetime (example_env (Raises (PyException ''offline''))) ''2023-01-20'' = Some 738540"
    by (simp add: example_eval)
  show "history_meta january_world ''000858'' = Some (Meta (Some 738521) (Some 738551))"
    by (simp add: january_world_def)
  show "history_data january_world ''000858'' = Some (Csv (Dated january_rows))"
    by (simp add: january_world_def)
  show "Unparsable \<notin> fst ` set january_rows"
    by (simp add: january_rows_def)
qed simp_all

lemma full_hit_value:
  "get_stock_history (example_env (Raises (PyException ''offline''))) ''000858.sz''
             ''2023-01-15'' ''2023-01-20'' ''qfq'' january_world
           = (Inr (Dated [(Date 738535, 2), (Date 738540, 3)]), january_world)"
  by (simp add: get_stock_history_def parse_symbol_test_sz example_eval january_world_def
        load_coverage_def getsize_pos_def cache_hit_def bound_le_def bound_ge_def read_dated_def
        read_csv_def to_datetime_col_def missing_to_NaT_def january_rows_def sort_values_def between_def ge_date_def le_date_def
        is_date_def date_of_def empty_world_def)

section \<open>Failures of the remote source\<close>

text \<open>
  C5. When the remote fetch of \<open>get_stock_history\<close> raises an exception \<open>e\<close>, every
  call that invokes the fetch fails with that same exception \<open>e\<close>, and the persisted
  table file and metadata file are what they were before the call; the only change of
  the state is the remote call that was made.
\<close>

theorem fetch_error_propagates:
  assumes sym: "parse_symbol symbol = Inr (pure_code, xq_code)"
      and fetch: "stock_zh_a_hist env pure_code (remove_dash start_date) (remove_dash end_date) adjust
                  = Raises e"
  shows "(remote_calls (snd (get_stock_history env symbol start_date end_date adjust w))
            \<noteq> remote_calls w \<longrightarrow>
          get_stock_history env symbol start_date end_date adjust w =
            (Inl (Raised e),
             w\<lparr>remote_calls := remote_calls w
                  @ [Hist pure_code (remove_dash start_date) (remove_dash end_date) adjust]\<rparr>))
       \<and> history_data (snd (get_stock_history env symbol start_date end_date adjust w)) = history_data w
       \<and> history_meta (snd (get_stock_history env symbol start_date end_date adjust w)) = history_meta w"
proof -
  have fm: "fetch_and_merge env pure_code start_date end_date adjust rs re cs ce w =
      (Inl (Raised e),
       w\<lparr>remote_calls := remote_calls w
            @ [Hist pure_code (remove_dash start_date) (remove_dash end_date) adjust]\<rparr>)"
    for rs re cs ce
    by (simp add: fetch_and_merge_def fetch Let_def)
  show ?thesis
    by (simp add: get_stock_history_def sym fm split: option.splits prod.splits sum.splits)
qed

theorem fetch_error_propagates_witness:
  "get_stock_history (example_env (Raises (PyException ''timeout''))) ''000858.sz''
     ''2023-02-01'' ''2023-02-10'' ''qfq'' january_world
   = (Inl (Raised (PyException ''timeout'')),
      january_world\<lparr>remote_calls := [Hist ''000858'' ''20230201'' ''20230210'' ''qfq'']\<rparr>)"
proof -
  let ?env = "example_env (Raises (PyException ''timeout''))"
  let ?call = "get_stock_history ?env ''000858.sz'' ''2023-02-01'' ''2023-02-10'' ''qfq'' january_world"
  have fetch: "stock_zh_a_hist ?env ''000858'' (remove_dash ''2023-02-01'') (remove_dash ''2023-02-10'') ''qfq''
               = Raises (PyException ''timeout'')"
    by (simp add: example_env_def)
  have invoked: "remote_calls (snd ?call) \<noteq> remote_calls january_world"
    by (simp add: get_stock_history_def parse_symbol_test_sz example_eval january_world_def
        load_coverage_def getsize_pos_def cache_hit_def bound_le_def bound_ge_def
        fetch_and_merge_def Let_def
        empty_world_def)
  have dash: "remove_dash ''2023-02-01'' = ''20230201''" "remove_dash ''2023-02-10'' = ''20230210''"
    by (simp_all add: remove_dash_def)
  have calls: "remote_calls january_world = []"
    by (simp add: january_world_def empty_world_def)
  show ?thesis
    using fetch_error_propagates [OF parse_symbol_test_sz fetch, of january_world] invoked
    by (simp add: dash calls)
qed

lemma contains_iff: "contains s sub \<longleftrightarrow> (\<exists>p q. s = p @ sub @ q)"
proof (induction s)
  case Nil
  then show ?case by auto
next
  case (Cons c cs)
  have "startswith (c # cs) sub \<longleftrightarrow> (\<exists>q. c # cs = sub @ q)"
    unfolding startswith_def
    by (metis append_eq_conv_conj append_take_drop_id)
  moreover have "(\<exists>p q. c # cs = p @ sub @ q) \<longleftrightarrow>
      (\<exists>q. c # cs = sub @ q) \<or> (\<exists>p q. cs = p @ sub @ q)"
  proof
    assume "\<exists>p q. c # cs = p @ sub @ q"
    then obtain p q where pq: "c # cs = p @ sub @ q" by blast
    show "(\<exists>q. c # cs = sub @ q) \<or> (\<exists>p q. cs = p @ sub @ q)"
    proof (cases p)
      case Nil
      with pq show ?thesis by auto
    next
      case (Cons a p')
      with pq have "cs = p' @ sub @ q" by simp
      then show ?thesis by blast
    qed
  next
    assume "(\<exists>q. c # cs = sub @ q) \<or> (\<exists>p q. cs = p @ sub @ q)"
    then show "\<exists>p q. c # cs = p @ sub @ q"
    proof
      assume "\<exists>q. c # cs = sub @ q"
      then obtain q where "c # cs = [] @ sub @ q" by auto
      then show ?thesis by blast
    next
      assume "\<exists>p q. cs = p @ sub @ q"
      then obtain p q where "c # cs = (c # p) @ sub @ q" by auto
      then show ?thesis by blast
    qed
  qed
  ultimately show ?case using Cons.IH by simp
qed

text \<open>
  C10. When \<open>get_stock_institute_recommendations\<close> reaches the remote fetch (a refresh
  is forced, or no readable cached table is stored) and the fetch raises an exception
  whose message contains "Empty DataFrame" or "No tables found", the operation returns
  the empty table and writes no file; any other exception of the fetch is raised to the
  caller as it is, and no file is written either.
\<close>

theorem recommendations_fetch_error:
  assumes sym: "parse_symbol symbol = Inr (pure_code, xq_code)"
      and miss: "force_update \<or> (\<forall>df. institute_recommendations w pure_code \<noteq> Some (Csv df))"
      and fetch: "stock_institute_recommend_detail env (lower xq_code) = Raises e"
  shows "get_stock_institute_recommendations env symbol force_update w =
           ((if contains (str e) ''Empty DataFrame'' \<or> contains (str e) ''No tables found''
             then Inr NoColumns else Inl (Raised e)),
            w\<lparr>remote_calls := remote_calls w @ [Recommend (lower xq_code)]\<rparr>)"
proof -
  have "load_snapshot force_update (institute_recommendations w pure_code) = None"
    using miss by (auto simp: load_snapshot_def read_csv_def split: option.splits csv.splits)
  then show ?thesis
    by (simp add: get_stock_institute_recommendations_def sym fetch Let_def)
qed

theorem recommendations_fetch_error_witness:
  "get_stock_institute_recommendations
     (example_env (Raises (PyException ''ValueError: No tables found''))) ''000858.sz'' True january_world
   = (Inr NoColumns, january_world\<lparr>remote_calls := [Recommend ''sz000858'']\<rparr>)
   \<and> get_stock_institute_recommendations
     (example_env (Raises (PyException ''Connection aborted''))) ''000858.sz'' False empty_world
   = (Inl (Raised (PyException ''Connection aborted'')),
      empty_world\<lparr>remote_calls := [Recommend ''sz000858'']\<rparr>)"
proof -
  have low: "lower ''SZ000858'' = ''sz000858''"
    by (simp add: lower_def lower_char_def)
  have c1: "contains ''ValueError: No tables found'' ''No tables found''"
    by (simp add: startswith_def)
  have c2: "\<not> contains ''Connection aborted'' ''Empty DataFrame''"
    "\<not> contains ''Connection aborted'' ''No tables found''"
    by (simp_all add: startswith_def)
  have calls: "remote_calls january_world = []" "remote_calls empty_world = []"
    by (simp_all add: january_world_def empty_world_def)
  have a: "get_stock_institute_recommendations
     (example_env (Raises (PyException ''ValueError: No tables found''))) ''000858.sz'' True january_world
   = (Inr NoColumns, january_world\<lparr>remote_calls := [Recommend ''sz000858'']\<rparr>)"
    using recommendations_fetch_error [OF parse_symbol_test_sz, of True january_world
        "example_env (Raises (PyException ''ValueError: No tables found''))"
        "PyException ''ValueError: No tables found''"]
    by (simp add: low c1 calls example_env_def del: contains.simps)
  have b: "get_stock_institute_recommendations
     (example_env (Raises (PyException ''Connection aborted''))) ''000858.sz'' False empty_world
   = (Inl (Raised (PyException ''Connection aborted'')),
      empty_world\<lparr>remote_calls := [Recommend ''sz000858'']\<rparr>)"
    using recommendations_fetch_error [OF parse_symbol_test_sz, of False empty_world
        "example_env (Raises (PyException ''Connection aborted''))"
        "PyException ''Connection aborted''"]
    by (simp add: low c2 calls example_env_def empty_world_def del: contains.simps)
  show ?thesis by (intro conjI a b)
qed



section \<open>Snapshot caches\<close>

lemma filter_dates_none: "filter_dates env None None df = df"
  by (simp add: filter_dates_def truthy_def)

lemma filter_dates_bounds:
  assumes "truthy start_date \<or> truthy end_date"
      and "parse_bound env start_date = Some lo" "parse_bound env end_date = Some hi"
  shows "filter_dates env start_date end_date (Dated rows)
         = Dated (filter (\<lambda>r. in_bounds lo hi (fst r)) (to_datetime_coerce rows))"
  using assms by (simp add: filter_dates_def Let_def)

text \<open>
  C8. For each snapshot operation (dividend information, research reports, institute
  recommendations, valuation, financial reports): when no refresh is forced and a
  readable table is stored, the operation returns the stored table and leaves the state
  as it was, so no remote call is made and no file is written. For the two operations
  that take dates, the returned table is the stored one filtered in memory, and for any
  state and any refresh flag the state after a call with dates is the state after the
  same call without dates: filtering writes no file and makes no remote call of its own.
\<close>

theorem snapshot_cache_hit:
  assumes sym: "parse_symbol symbol = Inr (pure_code, xq_code)"
  shows "(dividend_info w pure_code = Some (Csv df) \<longrightarrow>
            get_stock_dividend_info env symbol start_date end_date False w
              = (Inr (filter_dates env start_date end_date df), w)
          \<and> get_stock_dividend_info env symbol None None False w = (Inr df, w))
       \<and> (research_report w pure_code = Some (Csv df) \<longrightarrow>
            get_stock_research_report env symbol start_date end_date False w
              = (Inr (filter_dates env start_date end_date df), w)
          \<and> get_stock_research_report env symbol None None False w = (Inr df, w))
       \<and> (institute_recommendations w pure_code = Some (Csv df) \<longrightarrow>
            get_stock_institute_recommendations env symbol False w = (Inr df, w))
       \<and> (valuation w pure_code
             (replace_char (CHR '' '') ''_''
                (replace_char (CHR '')'') [] (replace_char (CHR ''('') [] indicator)))
             = Some (Csv df) \<and> strict_dates df = Some df \<longrightarrow>
            get_stock_valuation env symbol indicator False w = (Inr df, w))
       \<and> (financial w pure_code (replace_char (CHR '' '') ''_'' report_type) = Some (Csv df) \<longrightarrow>
            get_stock_financial_report env symbol report_type False w = (Inr df, w))
       \<and> snd (get_stock_dividend_info env symbol start_date end_date force_update w)
           = snd (get_stock_dividend_info env symbol None None force_update w)
       \<and> snd (get_stock_research_report env symbol start_date end_date force_update w)
           = snd (get_stock_research_report env symbol None None force_update w)"
proof -
  have div: "get_stock_dividend_info env symbol s e False w = (Inr (filter_dates env s e df), w)"
    if "dividend_info w pure_code = Some (Csv df)" for s e
    using that by (simp add: get_stock_dividend_info_def sym load_snapshot_def read_csv_def)
  have res: "get_stock_research_report env symbol s e False w = (Inr (filter_dates env s e df), w)"
    if "research_report w pure_code = Some (Csv df)" for s e
    using that by (simp add: get_stock_research_report_def sym load_snapshot_def read_csv_def)
  have ins: "get_stock_institute_recommendations env symbol False w = (Inr df, w)"
    if "institute_recommendations w pure_code = Some (Csv df)"
    using that by (simp add: get_stock_institute_recommendations_def sym load_snapshot_def read_csv_def)
  have val: "get_stock_valuation env symbol indicator False w = (Inr df, w)"
    if "valuation w pure_code
             (replace_char (CHR '' '') ''_''
                (replace_char (CHR '')'') [] (replace_char (CHR ''('') [] indicator)))
             = Some (Csv df)" "strict_dates df = Some df"
    using that by (simp add: get_stock_valuation_def sym load_snapshot_def read_csv_def Let_def)
  have fin: "get_stock_financial_report env symbol report_type False w = (Inr df, w)"
    if "financial w pure_code (replace_char (CHR '' '') ''_'' report_type) = Some (Csv df)"
    using that by (simp add: get_stock_financial_report_def sym load_snapshot_def read_csv_def Let_def)
  have sdiv: "snd (get_stock_dividend_info env symbol start_date end_date force_update w)
           = snd (get_stock_dividend_info env symbol None None force_update w)"
    by (simp add: get_stock_dividend_info_def sym Let_def split: option.splits response.splits)
  have sres: "snd (get_stock_research_report env symbol start_date end_date force_update w)
           = snd (get_stock_research_report env symbol None None force_update w)"
    by (simp add: get_stock_research_report_def sym Let_def split: option.splits response.splits)
  show ?thesis
    using div [of start_date end_date] div [of None None] res [of start_date end_date]
      res [of None None] ins val fin sdiv sres
    by (simp add: filter_dates_none)
qed

lemma january_coerce: "to_datetime_coerce january_rows = january_rows"
  by (simp add: to_datetime_coerce_def january_rows_def)

lemma january_filtered:
  "filter_dates (example_env a) (Some ''2023-01-15'') (Some ''2023-01-31'') (Dated january_rows)
   = Dated [(Date 738540, 3), (Date 738535, 2), (Date 738551, 4)]"
  by (simp add: filter_dates_def truthy_def parse_bound_def example_env_def example_dates_def
      january_coerce Let_def)
     (simp add: january_rows_def in_bounds_def ge_date_def le_date_def)

theorem snapshot_cache_hit_witness:
  "get_stock_dividend_info (example_env (Returns (Dated february_rows))) ''000858.sz''
     (Some ''2023-01-15'') (Some ''2023-01-31'') False january_world
   = (Inr (Dated [(Date 738540, 3), (Date 738535, 2), (Date 738551, 4)]), january_world)
   \<and> get_stock_dividend_info (example_env (Returns (Dated february_rows))) ''000858.sz''
     None None False january_world
   = (Inr (Dated january_rows), january_world)
   \<and> get_stock_research_report (example_env (Returns (Dated february_rows))) ''000858.sz''
     (Some ''2023-01-15'') (Some ''2023-01-31'') False january_world
   = (Inr (Dated [(Date 738540, 3), (Date 738535, 2), (Date 738551, 4)]), january_world)
   \<and> get_stock_institute_recommendations (example_env (Returns (Dated february_rows)))
       ''000858.sz'' False january_world
   = (Inr (Dated january_rows), january_world)
   \<and> get_stock_valuation (example_env (Returns (Dated february_rows))) ''000858.sz'' ''pe'' False
       january_world
   = (Inr (Dated january_rows), january_world)
   \<and> get_stock_financial_report (example_env (Returns (Dated february_rows))) ''000858.sz''
       ''income'' False january_world
   = (Inr (Dated january_rows), january_world)"
proof -
  let ?env = "example_env (Returns (Dated february_rows))"
  have files: "dividend_info january_world ''000858'' = Some (Csv (Dated january_rows))"
    "research_report january_world ''000858'' = Some (Csv (Dated january_rows))"
    "institute_recommendations january_world ''000858'' = Some (Csv (Dated january_rows))"
    "valuation january_world ''000858'' ''pe'' = Some (Csv (Dated january_rows))"
    "financial january_world ''000858'' ''income'' = Some (Csv (Dated january_rows))"
    by (simp_all add: january_world_def)
  have names: "replace_char (CHR '' '') ''_''
                (replace_char (CHR '')'') [] (replace_char (CHR ''('') [] ''pe'')) = ''pe''"
    "replace_char (CHR '' '') ''_'' ''income'' = ''income''"
    by (simp_all add: replace_char_def)
  have strict: "strict_dates (Dated january_rows) = Some (Dated january_rows)"
    by (simp add: strict_dates_def to_datetime_col_def missing_to_NaT_def january_rows_def)
  show ?thesis
    using snapshot_cache_hit [OF parse_symbol_test_sz, of january_world "Dated january_rows" ?env
        "Some ''2023-01-15''" "Some ''2023-01-31''" "''pe''" "''income''" False]
    by (simp add: files names strict january_filtered)
qed

section \<open>The merge\<close>

lemma set_drop_duplicates_last: "set (drop_duplicates_last rows) \<subseteq> set rows"
  by (induction rows) auto

lemma keys_drop_duplicates_last: "fst ` set (drop_duplicates_last rows) = fst ` set rows"
  by (induction rows) auto

lemma distinct_drop_duplicates_last: "distinct (map fst (drop_duplicates_last rows))"
proof (induction rows)
  case Nil
  then show ?case by simp
next
  case (Cons r rows)
  show ?case
  proof (cases "fst r \<in> set (map fst rows)")
    case True
    with Cons show ?thesis by simp
  next
    case False
    then have "fst r \<notin> fst ` set (drop_duplicates_last rows)"
      by (simp add: keys_drop_duplicates_last)
    with False Cons show ?thesis by simp
  qed
qed

lemma drop_duplicates_last_append:
  "r \<in> set (drop_duplicates_last (old @ new)) \<Longrightarrow> fst r \<in> fst ` set new \<Longrightarrow> r \<in> set new"
proof (induction old)
  case Nil
  then show ?case using set_drop_duplicates_last by fastforce
next
  case (Cons a old)
  show ?case
  proof (cases "fst a \<in> set (map fst (old @ new))")
    case True
    with Cons show ?thesis by simp
  next
    case False
    with Cons.prems have "r = a \<or> r \<in> set (drop_duplicates_last (old @ new))" by simp
    then show ?thesis
    proof
      assume "r = a"
      with False Cons.prems(2) show ?thesis by auto
    next
      assume "r \<in> set (drop_duplicates_last (old @ new))"
      with Cons show ?thesis by simp
    qed
  qed
qed

lemma distinct_sort_values:
  "distinct (map fst (sort_values rows)) \<longleftrightarrow> distinct (map fst rows)"
proof -
  have "mset (map fst (sort_values rows)) = mset (map fst rows)"
    by (simp add: mset_sort_values)
  then show ?thesis by (rule mset_eq_imp_distinct_iff)
qed

lemma filter_dated_sort_values:
  "filter (\<lambda>r. is_date (fst r)) (sort_values rows)
   = sort_key (\<lambda>r. date_of (fst r)) (filter (\<lambda>r. is_date (fst r)) rows)"
proof -
  have "filter (\<lambda>r. is_date (fst r))
          (sort_key (\<lambda>r. date_of (fst r)) (filter (\<lambda>r. is_date (fst r)) rows))
        = sort_key (\<lambda>r. date_of (fst r)) (filter (\<lambda>r. is_date (fst r)) rows)"
    by (rule filter_True) simp
  then show ?thesis by (simp add: sort_values_def)
qed

lemma filter_missing_sort_values:
  "filter (\<lambda>r. \<not> is_date (fst r)) (sort_values rows) = filter (\<lambda>r. \<not> is_date (fst r)) rows"
proof -
  have "filter (\<lambda>r. \<not> is_date (fst r))
          (sort_key (\<lambda>r. date_of (fst r)) (filter (\<lambda>r. is_date (fst r)) rows)) = []"
    by (simp add: filter_empty_conv)
  then show ?thesis by (simp add: sort_values_def)
qed

lemma sort_values_dated_sorted:
  "sorted (map (\<lambda>r. date_of (fst r)) (filter (\<lambda>r. is_date (fst r)) (sort_values rows)))"
  by (simp only: filter_dated_sort_values sorted_sort_key)

lemma sort_values_missing_last:
  "sort_values rows = filter (\<lambda>r. is_date (fst r)) (sort_values rows)
                      @ filter (\<lambda>r. \<not> is_date (fst r)) (sort_values rows)"
  by (simp only: filter_dated_sort_values filter_missing_sort_values) (simp add: sort_values_def)


lemma pd_concat_append: "pd_concat cached new_df = cached @ pd_concat [] new_df"
  by (simp add: pd_concat_def split: frame.splits)

lemma cache_miss:
  assumes "\<forall>cs ce. m = Some (Meta (Some cs) (Some ce)) \<longrightarrow> \<not> (cs \<le> rs \<and> re \<le> ce)"
      and "\<forall>s e. m \<noteq> Some (MetaNaT s e)"
  shows "cache_hit (fst (load_coverage m f)) (snd (load_coverage m f)) rs re f' = Inr None"
proof (cases "load_coverage m f")
  case (Pair a b)
  show ?thesis
  proof (cases m)
    case None
    then show ?thesis by (simp add: load_coverage_def cache_hit_def)
  next
    case (Some mt)
    show ?thesis
    proof (cases mt)
      case BadJson
      with Some show ?thesis
        by (simp add: load_coverage_def cache_hit_def split: option.splits)
    next
      case (Meta cs ce)
      with Some assms(1) show ?thesis
        by (cases cs; cases ce)
           (auto simp: load_coverage_def cache_hit_def bound_le_def bound_ge_def
             split: option.splits bool.splits)
    next
      case (MetaNaT s e)
      with Some assms(2) show ?thesis by simp
    qed
  qed
qed

lemma read_dated_unreadable:
  assumes "\<forall>rows. f = Some (Csv (Dated rows)) \<longrightarrow> Unparsable \<in> fst ` set rows"
  shows "load_cached f = None" and "\<forall>tbl. f = Some tbl \<longrightarrow> read_dated tbl = None"
proof -
  have r: "read_dated tbl = None" if "f = Some tbl" for tbl
  proof (cases tbl)
    case (Csv df)
    show ?thesis
    proof (cases df)
      case (Dated rows)
      with Csv that assms have "Unparsable \<in> fst ` set rows" by simp
      then have "to_datetime_col rows = None"
        by (force simp: to_datetime_col_def list_ex_iff)
      with Csv Dated show ?thesis by (simp add: read_dated_def read_csv_def)
    qed (simp_all add: Csv read_dated_def read_csv_def)
  qed (simp_all add: read_dated_def read_csv_def)
  then show "\<forall>tbl. f = Some tbl \<longrightarrow> read_dated tbl = None" by blast
  with r show "load_cached f = None"
    by (cases f) (simp_all add: load_cached_def)
qed

lemma cache_unreadable:
  assumes "\<forall>rows. f = Some (Csv (Dated rows)) \<longrightarrow> Unparsable \<in> fst ` set rows"
      and "\<forall>s e. m \<noteq> Some (MetaNaT s e)"
  shows "cache_hit (fst (load_coverage m f)) (snd (load_coverage m f)) rs re f = Inr None"
proof (cases m)
  case None
  then show ?thesis by (simp add: load_coverage_def cache_hit_def)
next
  case (Some mt)
  show ?thesis
  proof (cases mt)
    case BadJson
    with Some show ?thesis
      by (simp add: load_coverage_def cache_hit_def split: option.splits)
  next
    case (Meta cs ce)
    with Some read_dated_unreadable(2) [OF assms(1)] show ?thesis
      by (cases cs; cases ce; cases f)
         (auto simp: load_coverage_def cache_hit_def bound_le_def bound_ge_def
           split: option.splits bool.splits)
  next
    case (MetaNaT s e)
    with Some assms(2) show ?thesis by simp
  qed
qed

lemma get_stock_history_miss:
  assumes "parse_symbol symbol = Inr (pure_code, xq_code)"
      and "to_datetime env start_date = Some req_start"
      and "to_datetime env end_date = Some req_end"
      and "cache_hit (fst (load_coverage (history_meta w pure_code) (history_data w pure_code)))
             (snd (load_coverage (history_meta w pure_code) (history_data w pure_code)))
             req_start req_end (history_data w pure_code) = Inr None"
  shows "get_stock_history env symbol start_date end_date adjust w =
           fetch_and_merge env pure_code start_date end_date adjust req_start req_end
             (fst (load_coverage (history_meta w pure_code) (history_data w pure_code)))
             (snd (load_coverage (history_meta w pure_code) (history_data w pure_code))) w"
  using assms by (simp add: get_stock_history_def case_prod_beta)

lemma fetch_and_merge_table:
  assumes "stock_zh_a_hist env pc (remove_dash s) (remove_dash e) adj = Returns fetched"
      and "parse_new fetched = Some new_df"
  shows "history_data (snd (fetch_and_merge env pc s e adj rs re cs ce w)) pc
         = Some (to_csv (merge_cache (load_cached (history_data w pc)) new_df))"
proof (cases "new_coverage cs ce rs re")
  case None
  with assms show ?thesis by (simp add: fetch_and_merge_def Let_def)
next
  case (Some p)
  with assms show ?thesis
    by (cases p; cases "merge_cache (load_cached (history_data w pc)) new_df")
       (simp_all add: fetch_and_merge_def Let_def)
qed

lemma parse_new_dated:
  "Unparsable \<notin> fst ` set rows \<Longrightarrow> NaN \<notin> fst ` set rows \<Longrightarrow>
   parse_new (Dated rows) = Some (Dated rows)"
  by (simp add: parse_new_def to_datetime_col_ok missing_to_NaT_id)

text \<open>
  C2, as amended. The stored bounds are not \<open>NaT\<close>, the requested dates parse, and the
  remote source answers with a table that has its date column, all dates parsing.
  When a cached table was loaded for the merge (the table file is readable, with its
  date column) and the call is not served from the cache, the table persisted after the
  merge has at most one row per value of the date column, holds exactly the dates of
  the cached and of the fetched rows, keeps the fetched row for every date that a
  fetched row carries, and is sorted ascending by date, rows without a date last.
  When no cached table is loaded (the table file is missing, empty or not readable),
  the fetched table is persisted as it was fetched.
\<close>

theorem merge_dedup_sorted:
  assumes sym: "parse_symbol symbol = Inr (pure_code, xq_code)"
      and rs: "to_datetime env start_date = Some req_start"
      and re: "to_datetime env end_date = Some req_end"
      and nonat: "\<forall>s e. history_meta w pure_code \<noteq> Some (MetaNaT s e)"
      and fetch: "stock_zh_a_hist env pure_code (remove_dash start_date) (remove_dash end_date) adjust
                  = Returns (Dated new_rows)"
      and new: "Unparsable \<notin> fst ` set new_rows" "NaN \<notin> fst ` set new_rows"
  shows "(\<forall>cached.
            history_data w pure_code = Some (Csv (Dated cached))
          \<and> Unparsable \<notin> fst ` set cached \<and> NaN \<notin> fst ` set cached
          \<and> (\<forall>cs ce. history_meta w pure_code = Some (Meta (Some cs) (Some ce)) \<longrightarrow>
                \<not> (cs \<le> req_start \<and> req_end \<le> ce))
          \<longrightarrow>
            (\<exists>merged.
               history_data (snd (get_stock_history env symbol start_date end_date adjust w))
                 pure_code = Some (Csv (Dated merged))
             \<and> distinct (map fst merged)
             \<and> fst ` set merged = fst ` set cached \<union> fst ` set new_rows
             \<and> (\<forall>r \<in> set merged. fst r \<in> fst ` set new_rows \<longrightarrow> r \<in> set new_rows)
             \<and> sorted (map (\<lambda>r. date_of (fst r)) (filter (\<lambda>r. is_date (fst r)) merged))
             \<and> merged = filter (\<lambda>r. is_date (fst r)) merged
                         @ filter (\<lambda>r. \<not> is_date (fst r)) merged))
       \<and> ((\<forall>rows. history_data w pure_code = Some (Csv (Dated rows)) \<longrightarrow>
                   Unparsable \<in> fst ` set rows)
          \<longrightarrow>
            history_data (snd (get_stock_history env symbol start_date end_date adjust w)) pure_code
              = Some (Csv (Dated new_rows)))"
proof (intro conjI allI impI)
  fix cached
  assume a: "history_data w pure_code = Some (Csv (Dated cached))
          \<and> Unparsable \<notin> fst ` set cached \<and> NaN \<notin> fst ` set cached
          \<and> (\<forall>cs ce. history_meta w pure_code = Some (Meta (Some cs) (Some ce)) \<longrightarrow>
                \<not> (cs \<le> req_start \<and> req_end \<le> ce))"
  then have tab: "history_data w pure_code = Some (Csv (Dated cached))"
    and ok: "Unparsable \<notin> fst ` set cached" "NaN \<notin> fst ` set cached"
    and miss: "\<forall>cs ce. history_meta w pure_code = Some (Meta (Some cs) (Some ce)) \<longrightarrow>
                \<not> (cs \<le> req_start \<and> req_end \<le> ce)"
    by blast+
  let ?merged = "sort_values (drop_duplicates_last (cached @ new_rows))"
  have cached: "load_cached (history_data w pure_code) = Some cached"
    using ok by (simp add: load_cached_def tab getsize_pos_def read_dated_def read_csv_def
        to_datetime_col_ok missing_to_NaT_id)
  have k: "fst ` set ?merged = fst ` set cached \<union> fst ` set new_rows"
    by (simp add: set_sort_values keys_drop_duplicates_last image_Un)
  with ok new have "NaN \<notin> fst ` set ?merged" by blast
  then have final: "to_csv (merge_cache (Some cached) (Dated new_rows)) = Csv (Dated ?merged)"
    by (simp add: merge_cache_def pd_concat_def to_csv_def missing_to_NaT_id)
  have call: "get_stock_history env symbol start_date end_date adjust w =
           fetch_and_merge env pure_code start_date end_date adjust req_start req_end
             (fst (load_coverage (history_meta w pure_code) (history_data w pure_code)))
             (snd (load_coverage (history_meta w pure_code) (history_data w pure_code))) w"
    by (rule get_stock_history_miss [OF sym rs re cache_miss [OF miss nonat]])
  have written: "history_data (snd (get_stock_history env symbol start_date end_date adjust w)) pure_code
             = Some (Csv (Dated ?merged))"
    unfolding call
    by (simp add: fetch_and_merge_table [OF fetch parse_new_dated [OF new]] cached final)
  have d: "distinct (map fst ?merged)"
    by (simp add: distinct_sort_values distinct_drop_duplicates_last)
  have n: "\<forall>r \<in> set ?merged. fst r \<in> fst ` set new_rows \<longrightarrow> r \<in> set new_rows"
    using drop_duplicates_last_append [of _ cached new_rows] by (simp add: set_sort_values)
  show "\<exists>merged.
               history_data (snd (get_stock_history env symbol start_date end_date adjust w))
                 pure_code = Some (Csv (Dated merged))
             \<and> distinct (map fst merged)
             \<and> fst ` set merged = fst ` set cached \<union> fst ` set new_rows
             \<and> (\<forall>r \<in> set merged. fst r \<in> fst ` set new_rows \<longrightarrow> r \<in> set new_rows)
             \<and> sorted (map (\<lambda>r. date_of (fst r)) (filter (\<lambda>r. is_date (fst r)) merged))
             \<and> merged = filter (\<lambda>r. is_date (fst r)) merged
                         @ filter (\<lambda>r. \<not> is_date (fst r)) merged"
    using written d k n sort_values_dated_sorted [of "drop_duplicates_last (cached @ new_rows)"]
      sort_values_missing_last [of "drop_duplicates_last (cached @ new_rows)"]
    by blast
next
  assume un: "\<forall>rows. history_data w pure_code = Some (Csv (Dated rows)) \<longrightarrow>
                   Unparsable \<in> fst ` set rows"
  have call: "get_stock_history env symbol start_date end_date adjust w =
           fetch_and_merge env pure_code start_date end_date adjust req_start req_end
             (fst (load_coverage (history_meta w pure_code) (history_data w pure_code)))
             (snd (load_coverage (history_meta w pure_code) (history_data w pure_code))) w"
    by (rule get_stock_history_miss [OF sym rs re cache_unreadable [OF un nonat]])
  have final: "to_csv (merge_cache None (Dated new_rows)) = Csv (Dated new_rows)"
    using new(2) by (simp add: merge_cache_def to_csv_def missing_to_NaT_id)
  show "history_data (snd (get_stock_history env symbol start_date end_date adjust w)) pure_code
              = Some (Csv (Dated new_rows))"
    unfolding call
    by (simp add: fetch_and_merge_table [OF fetch parse_new_dated [OF new]]
        read_dated_unreadable(1) [OF un] final)
qed

lemmas history_eval =
  get_stock_history_def fetch_and_merge_def load_coverage_def cache_hit_def load_cached_def
  read_dated_def read_csv_def getsize_pos_def to_datetime_col_def parse_new_def merge_cache_def
  pd_concat_def to_csv_def sort_values_def between_def ge_date_def le_date_def is_date_def
  date_of_def remove_dash_def example_env_def example_dates_def Let_def
  bound_le_def bound_ge_def min_bound_def max_bound_def new_coverage_def missing_to_NaT_def

text \<open>
  C2 as stated fails in two ways. When no cached table is loaded, the fetched frame is
  persisted as it came, here with two rows for one date and not in ascending order.
  When a cached table with a row without a date is merged with a fetched frame that
  lacks the date column, the persisted table holds two rows without a date, the cached
  one and the fetched one.
\<close>

theorem fresh_fetch_duplicates_counterexample:
  "history_data
     (snd (get_stock_history (example_env (Returns (Dated duplicate_rows))) ''000858.sz''
             ''2023-01-01'' ''2023-01-31'' ''qfq'' empty_world)) ''000858''
   = Some (Csv (Dated [(Date 738522, 2), (Date 738521, 1), (Date 738521, 7)]))
   \<and> \<not> distinct (map fst [(Date 738522, 2 :: nat), (Date 738521, 1), (Date 738521, 7)])
   \<and> \<not> sorted (map (\<lambda>r. date_of (fst r)) [(Date 738522, 2 :: nat), (Date 738521, 1), (Date 738521, 7)])
   \<and> history_data
     (snd (get_stock_history (example_env (Returns (NoDateCol [5]))) ''000858.sz''
             ''2023-02-01'' ''2023-02-10'' ''qfq'' undated_world)) ''000858''
   = Some (Csv (Dated [(Date 738521, 1), (NaT, 9), (NaT, 5)]))
   \<and> \<not> distinct (map fst [(Date 738521, 1 :: nat), (NaT, 9), (NaT, 5)])"
  by (simp add: history_eval parse_symbol_test_sz empty_world_def duplicate_rows_def
      undated_world_def undated_rows_def january_world_def)

theorem merge_dedup_sorted_witness:
  "(\<exists>merged.
      history_data
        (snd (get_stock_history (example_env (Returns (Dated overlap_rows))) ''000858.sz''
                ''2023-01-31'' ''2023-02-10'' ''qfq'' january_world)) ''000858''
        = Some (Csv (Dated merged))
      \<and> distinct (map fst merged)
      \<and> fst ` set merged = fst ` set january_rows \<union> fst ` set overlap_rows
      \<and> (\<forall>r \<in> set merged. fst r \<in> fst ` set overlap_rows \<longrightarrow> r \<in> set overlap_rows)
      \<and> sorted (map (\<lambda>r. date_of (fst r)) (filter (\<lambda>r. is_date (fst r)) merged))
      \<and> merged = filter (\<lambda>r. is_date (fst r)) merged @ filter (\<lambda>r. \<not> is_date (fst r)) merged)
   \<and> history_data
        (snd (get_stock_history (example_env (Returns (Dated overlap_rows))) ''000858.sz''
                ''2023-01-31'' ''2023-02-10'' ''qfq'' january_world)) ''000858''
      = Some (Csv (Dated [(Date 738521, 1), (Date 738535, 2), (Date 738540, 3),
                          (Date 738551, 40), (Date 738552, 5), (Date 738561, 6)]))
   \<and> history_data
        (snd (get_stock_history (example_env (Returns (Dated overlap_rows))) ''000858.sz''
                ''2023-01-31'' ''2023-02-10'' ''qfq'' malformed_world)) ''000858''
      = Some (Csv (Dated overlap_rows))"
proof -
  let ?env = "example_env (Returns (Dated overlap_rows))"
  have rs: "to_datetime ?env ''2023-01-31'' = Some 738551"
    and re: "to_datetime ?env ''2023-02-10'' = Some 738561"
    by (simp_all add: example_eval)
  have fetch: "stock_zh_a_hist ?env ''000858'' (remove_dash ''2023-01-31'')
                 (remove_dash ''2023-02-10'') ''qfq'' = Returns (Dated overlap_rows)"
    by (simp add: example_env_def)
  have new: "Unparsable \<notin> fst ` set overlap_rows" "NaN \<notin> fst ` set overlap_rows"
    by (simp_all add: overlap_rows_def)
  have nonat: "\<forall>s e. history_meta january_world ''000858'' \<noteq> Some (MetaNaT s e)"
    "\<forall>s e. history_meta malformed_world ''000858'' \<noteq> Some (MetaNaT s e)"
    by (simp_all add: january_world_def malformed_world_def)
  have tab: "history_data january_world ''000858'' = Some (Csv (Dated january_rows))
          \<and> Unparsable \<notin> fst ` set january_rows \<and> NaN \<notin> fst ` set january_rows
          \<and> (\<forall>cs ce. history_meta january_world ''000858'' = Some (Meta (Some cs) (Some ce)) \<longrightarrow>
                \<not> (cs \<le> 738551 \<and> 738561 \<le> ce))"
    by (simp add: january_world_def january_rows_def)
  have un: "\<forall>rows. history_data malformed_world ''000858'' = Some (Csv (Dated rows)) \<longrightarrow>
                   Unparsable \<in> fst ` set rows"
    by (simp add: malformed_world_def)
  from merge_dedup_sorted [OF parse_symbol_test_sz rs re nonat(1) fetch new] tab
  have a: "\<exists>merged.
      history_data
        (snd (get_stock_history ?env ''000858.sz'' ''2023-01-31'' ''2023-02-10'' ''qfq''
                january_world)) ''000858''
        = Some (Csv (Dated merged))
      \<and> distinct (map fst merged)
      \<and> fst ` set merged = fst ` set january_rows \<union> fst ` set overlap_rows
      \<and> (\<forall>r \<in> set merged. fst r \<in> fst ` set overlap_rows \<longrightarrow> r \<in> set overlap_rows)
      \<and> sorted (map (\<lambda>r. date_of (fst r)) (filter (\<lambda>r. is_date (fst r)) merged))
      \<and> merged = filter (\<lambda>r. is_date (fst r)) merged @ filter (\<lambda>r. \<not> is_date (fst r)) merged"
    by blast
  from merge_dedup_sorted [OF parse_symbol_test_sz rs re nonat(2) fetch new] un
  have b: "history_data
        (snd (get_stock_history ?env ''000858.sz'' ''2023-01-31'' ''2023-02-10'' ''qfq''
                malformed_world)) ''000858''
      = Some (Csv (Dated overlap_rows))"
    by blast
  have c: "history_data
        (snd (get_stock_history ?env ''000858.sz'' ''2023-01-31'' ''2023-02-10'' ''qfq''
                january_world)) ''000858''
      = Some (Csv (Dated [(Date 738521, 1), (Date 738535, 2), (Date 738540, 3),
                          (Date 738551, 40), (Date 738552, 5), (Date 738561, 6)]))"
    by (simp add: history_eval parse_symbol_test_sz january_world_def empty_world_def
        january_rows_def overlap_rows_def)
  from a c b show ?thesis by (intro conjI)
qed

section \<open>The slice returned after a fetch\<close>

text \<open>
  C4 at an input where the code departs from it. On a first call for a stock (no cached
  table) the remote source answers with the rows of 2 January, 1 January and 1 January
  again. The call succeeds and returns the rows of the requested interval in the order
  of the answer, which is not ascending by date, and persists them in that order. The
  same request repeated is a full hit and returns the same rows sorted: the return of
  the full hit (line 162) sorts, the return after a fetch (line 239) does not.
\<close>

theorem fresh_miss_returns_fetch_order:
  "get_stock_history (example_env (Returns (Dated duplicate_rows))) ''000858.sz''
     ''2023-01-01'' ''2023-01-31'' ''qfq'' empty_world
   = (Inr (Dated [(Date 738522, 2), (Date 738521, 1), (Date 738521, 7)]),
      empty_world\<lparr>history_data := (\<lambda>code. None)(''000858'' := Some (Csv (Dated duplicate_rows))),
                  history_meta := (\<lambda>code. None)(''000858'' := Some (Meta (Some 738521) (Some 738551))),
                  remote_calls := [Hist ''000858'' ''20230101'' ''20230131'' ''qfq'']\<rparr>)
   \<and> \<not> sorted (map (\<lambda>r. date_of (fst r))
                [(Date 738522, 2 :: nat), (Date 738521, 1), (Date 738521, 7)])
   \<and> fst (get_stock_history (example_env (Returns (Dated duplicate_rows))) ''000858.sz''
            ''2023-01-01'' ''2023-01-31'' ''qfq''
            (snd (get_stock_history (example_env (Returns (Dated duplicate_rows))) ''000858.sz''
                    ''2023-01-01'' ''2023-01-31'' ''qfq'' empty_world)))
     = Inr (Dated [(Date 738521, 1), (Date 738521, 7), (Date 738522, 2)])"
  by (simp add: history_eval parse_symbol_test_sz empty_world_def duplicate_rows_def)

section \<open>A table file that cannot be read\<close>

text \<open>
  C6 at an input where the code departs from it. The table file of the stock is not a
  table, beside metadata covering January 2023; the request is 1 to 10 February. The
  fetched table is persisted without the old content, but the metadata written is the
  span from the old covered start to the requested end, not the requested interval that
  a first call (empty directory) or a call on an empty table file writes. A later
  request inside January is then served from the cache as a full hit, without a remote
  call, from a table that holds no row of January.
\<close>

theorem malformed_table_keeps_coverage:
  "history_meta
     (snd (get_stock_history (example_env (Returns (Dated february_rows))) ''000858.sz''
             ''2023-02-01'' ''2023-02-10'' ''qfq'' malformed_world)) ''000858''
   = Some (Meta (Some 738521) (Some 738561))
   \<and> history_data
     (snd (get_stock_history (example_env (Returns (Dated february_rows))) ''000858.sz''
             ''2023-02-01'' ''2023-02-10'' ''qfq'' malformed_world)) ''000858''
   = Some (Csv (Dated february_rows))
   \<and> history_meta
     (snd (get_stock_history (example_env (Returns (Dated february_rows))) ''000858.sz''
             ''2023-02-01'' ''2023-02-10'' ''qfq'' empty_world)) ''000858''
   = Some (Meta (Some 738552) (Some 738561))
   \<and> history_meta
     (snd (get_stock_history (example_env (Returns (Dated february_rows))) ''000858.sz''
             ''2023-02-01'' ''2023-02-10'' ''qfq'' truncated_world)) ''000858''
   = Some (Meta (Some 738552) (Some 738561))
   \<and> get_stock_history (example_env (Raises (PyException ''offline''))) ''000858.sz''
        ''2023-01-15'' ''2023-01-20'' ''qfq''
        (snd (get_stock_history (example_env (Returns (Dated february_rows))) ''000858.sz''
             ''2023-02-01'' ''2023-02-10'' ''qfq'' malformed_world))
      = (Inr (Dated []),
         snd (get_stock_history (example_env (Returns (Dated february_rows))) ''000858.sz''
             ''2023-02-01'' ''2023-02-10'' ''qfq'' malformed_world))"
  by (simp add: history_eval parse_symbol_test_sz empty_world_def january_world_def
      malformed_world_def truncated_world_def february_rows_def)

section \<open>Coverage\<close>

lemma missing_to_NaT_parsable:
  "Unparsable \<notin> fst ` set rows \<Longrightarrow> Unparsable \<notin> fst ` set (map missing_to_NaT rows)"
  using missing_to_NaT_cells [of rows] by auto

lemma parse_new_Some:
  assumes "parse_new fetched = Some new_df"
  shows "Unparsable \<notin> fst ` set (pd_concat [] new_df)"
proof (cases fetched)
  case NoColumns
  with assms show ?thesis by (auto simp: parse_new_def pd_concat_def)
next
  case (NoDateCol ps)
  with assms show ?thesis by (auto simp: parse_new_def pd_concat_def)
next
  case (Dated rows)
  with assms obtain rows' where r: "new_df = Dated rows'" "to_datetime_col rows = Some rows'"
    by (auto simp: parse_new_def)
  from to_datetime_col_Some [OF r(2)] missing_to_NaT_parsable [of rows]
  have "Unparsable \<notin> fst ` set rows'" by simp
  with r(1) show ?thesis by (simp add: pd_concat_def)
qed

lemma load_cached_readable:
  "Unparsable \<notin> fst ` set rows \<Longrightarrow>
   load_cached (Some (Csv (Dated rows))) = Some (map missing_to_NaT rows)"
  by (simp add: load_cached_def getsize_pos_def read_dated_def read_csv_def to_datetime_col_ok)

lemma load_coverage_readable:
  "load_coverage (Some (Meta (Some cs) (Some ce))) (Some (Csv df)) = (Some (On cs), Some (On ce))"
  by (simp add: load_coverage_def getsize_pos_def)

lemma merge_cache_readable:
  assumes "Unparsable \<notin> fst ` set rows" "Unparsable \<notin> fst ` set (pd_concat [] new_df)"
  shows "\<exists>merged. to_csv (merge_cache (Some rows) new_df) = Csv (Dated merged)
           \<and> Unparsable \<notin> fst ` set merged"
proof -
  let ?merged = "sort_values (drop_duplicates_last (rows @ pd_concat [] new_df))"
  have "to_csv (merge_cache (Some rows) new_df) = Csv (Dated (map missing_to_NaT ?merged))"
    by (simp add: merge_cache_def to_csv_def pd_concat_append [of rows])
  moreover have "fst ` set ?merged = fst ` set rows \<union> fst ` set (pd_concat [] new_df)"
    by (simp add: set_sort_values keys_drop_duplicates_last image_Un)
  then have "Unparsable \<notin> fst ` set ?merged" using assms by blast
  then have "Unparsable \<notin> fst ` set (map missing_to_NaT ?merged)"
    by (rule missing_to_NaT_parsable)
  ultimately show ?thesis by blast
qed

lemma fetch_and_merge_frame:
  assumes "c \<noteq> pc"
  shows "history_data (snd (fetch_and_merge env pc s e adj rs re cs ce w)) c = history_data w c
       \<and> history_meta (snd (fetch_and_merge env pc s e adj rs re cs ce w)) c = history_meta w c"
proof (cases "stock_zh_a_hist env pc (remove_dash s) (remove_dash e) adj")
  case (Raises x)
  then show ?thesis by (simp add: fetch_and_merge_def Let_def)
next
  case (Returns fetched)
  show ?thesis
  proof (cases "parse_new fetched")
    case None
    with Returns show ?thesis by (simp add: fetch_and_merge_def Let_def)
  next
    case (Some new_df)
    show ?thesis
    proof (cases "new_coverage cs ce rs re")
      case None
      with Returns Some assms show ?thesis by (simp add: fetch_and_merge_def Let_def)
    next
      case (Some p)
      with Returns \<open>parse_new fetched = Some new_df\<close> assms show ?thesis
        by (cases p; cases "merge_cache (load_cached (history_data w pc)) new_df")
           (simp_all add: fetch_and_merge_def Let_def)
    qed
  qed
qed

lemma fetch_and_merge_files:
  "(history_data (snd (fetch_and_merge env pc s e adj rs re (Some (On cs)) (Some (On ce)) w))
      = history_data w
    \<and> history_meta (snd (fetch_and_merge env pc s e adj rs re (Some (On cs)) (Some (On ce)) w))
      = history_meta w)
   \<or> (\<exists>fetched new_df.
        parse_new fetched = Some new_df
      \<and> history_data (snd (fetch_and_merge env pc s e adj rs re (Some (On cs)) (Some (On ce)) w)) pc
          = Some (to_csv (merge_cache (load_cached (history_data w pc)) new_df))
      \<and> history_meta (snd (fetch_and_merge env pc s e adj rs re (Some (On cs)) (Some (On ce)) w)) pc
          = Some (Meta (Some (min cs rs)) (Some (max ce re))))"
proof (cases "stock_zh_a_hist env pc (remove_dash s) (remove_dash e) adj")
  case (Raises x)
  then show ?thesis by (simp add: fetch_and_merge_def Let_def)
next
  case (Returns fetched)
  show ?thesis
  proof (cases "parse_new fetched")
    case None
    with Returns show ?thesis by (simp add: fetch_and_merge_def Let_def)
  next
    case (Some new_df)
    have nc: "new_coverage (Some (On cs)) (Some (On ce)) rs re = Some (min cs rs, max ce re)"
      by (simp add: new_coverage_def min_bound_def max_bound_def)
    have "history_meta (snd (fetch_and_merge env pc s e adj rs re (Some (On cs)) (Some (On ce)) w)) pc
          = Some (Meta (Some (min cs rs)) (Some (max ce re)))"
      using Returns Some nc
      by (cases "merge_cache (load_cached (history_data w pc)) new_df")
         (simp_all add: fetch_and_merge_def Let_def)
    with fetch_and_merge_table [OF Returns Some] Some show ?thesis by blast
  qed
qed

lemma get_stock_history_cases:
  "snd (get_stock_history env symbol start_date end_date adjust w) = w
   \<or> (\<exists>pc xq rs re.
        parse_symbol symbol = Inr (pc, xq)
      \<and> snd (get_stock_history env symbol start_date end_date adjust w)
          = snd (fetch_and_merge env pc start_date end_date adjust rs re
                   (fst (load_coverage (history_meta w pc) (history_data w pc)))
                   (snd (load_coverage (history_meta w pc) (history_data w pc))) w))"
  by (auto simp: get_stock_history_def case_prod_beta split: sum.splits option.splits)

lemma history_step:
  assumes tab: "history_data w code = Some (Csv (Dated rows))"
      and ok: "Unparsable \<notin> fst ` set rows"
      and meta: "history_meta w code = Some (Meta (Some cs) (Some ce))"
  shows "\<exists>rows' cs' ce'.
           history_data (snd (get_stock_history env symbol start_date end_date adjust w)) code
             = Some (Csv (Dated rows'))
         \<and> Unparsable \<notin> fst ` set rows'
         \<and> history_meta (snd (get_stock_history env symbol start_date end_date adjust w)) code
             = Some (Meta (Some cs') (Some ce'))
         \<and> cs' \<le> cs \<and> ce \<le> ce'"
proof -
  let ?w' = "snd (get_stock_history env symbol start_date end_date adjust w)"
  from get_stock_history_cases [of env symbol start_date end_date adjust w]
  consider (same) "?w' = w"
    | (fetch) pc rs re where
        "?w' = snd (fetch_and_merge env pc start_date end_date adjust rs re
                   (fst (load_coverage (history_meta w pc) (history_data w pc)))
                   (snd (load_coverage (history_meta w pc) (history_data w pc))) w)"
    by blast
  then show ?thesis
  proof cases
    case same
    with tab ok meta show ?thesis by simp
  next
    case (fetch pc rs re)
    show ?thesis
    proof (cases "pc = code")
      case False
      then have ne: "code \<noteq> pc" by simp
      have "history_data ?w' code = history_data w code
          \<and> history_meta ?w' code = history_meta w code"
        unfolding fetch by (rule fetch_and_merge_frame [OF ne])
      with tab ok meta show ?thesis by simp
    next
      case True
      have lc: "load_coverage (history_meta w pc) (history_data w pc) = (Some (On cs), Some (On ce))"
        using True tab meta by (simp add: load_coverage_readable)
      have cached: "load_cached (history_data w pc) = Some (map missing_to_NaT rows)"
        using True tab ok by (simp add: load_cached_readable)
      have w': "?w' = snd (fetch_and_merge env pc start_date end_date adjust rs re
                   (Some (On cs)) (Some (On ce)) w)"
        unfolding fetch lc by simp
      from fetch_and_merge_files [of env pc start_date end_date adjust rs re cs ce w]
      consider (kept) "history_data ?w' = history_data w" "history_meta ?w' = history_meta w"
        | (written) fetched new_df where
            "parse_new fetched = Some new_df"
            "history_data ?w' pc
               = Some (to_csv (merge_cache (load_cached (history_data w pc)) new_df))"
            "history_meta ?w' pc = Some (Meta (Some (min cs rs)) (Some (max ce re)))"
        unfolding w' by blast
      then show ?thesis
      proof cases
        case kept
        with tab ok meta show ?thesis by simp
      next
        case written
        from merge_cache_readable [OF missing_to_NaT_parsable [OF ok] parse_new_Some [OF written(1)]]
        obtain merged where
          m: "to_csv (merge_cache (Some (map missing_to_NaT rows)) new_df) = Csv (Dated merged)"
             "Unparsable \<notin> fst ` set merged"
          by blast
        have "history_data ?w' code = Some (Csv (Dated merged))"
          using written(2) True cached m(1) by simp
        moreover have "history_meta ?w' code = Some (Meta (Some (min cs rs)) (Some (max ce re)))"
          using written(3) True by simp
        ultimately show ?thesis using m(2) by force
      qed
    qed
  qed
qed

lemma history_run:
  assumes "history_data w code = Some (Csv (Dated rows))" "Unparsable \<notin> fst ` set rows"
      and "history_meta w code = Some (Meta (Some cs) (Some ce))"
  shows "\<exists>rows' cs' ce'.
           history_data (run calls w) code = Some (Csv (Dated rows'))
         \<and> Unparsable \<notin> fst ` set rows'
         \<and> history_meta (run calls w) code = Some (Meta (Some cs') (Some ce'))
         \<and> cs' \<le> cs \<and> ce \<le> ce'"
  using assms
proof (induction calls arbitrary: w rows cs ce)
  case Nil
  then show ?case by simp
next
  case (Cons c calls)
  obtain env symbol start_date end_date adjust where c: "c = Call env symbol start_date end_date adjust"
    by (cases c)
  let ?w1 = "snd (get_stock_history env symbol start_date end_date adjust w)"
  from history_step [OF Cons.prems, of env symbol start_date end_date adjust]
  obtain rows1 cs1 ce1 where
    1: "history_data ?w1 code = Some (Csv (Dated rows1))" "Unparsable \<notin> fst ` set rows1"
       "history_meta ?w1 code = Some (Meta (Some cs1) (Some ce1))" and le1: "cs1 \<le> cs" "ce \<le> ce1"
    by blast
  from Cons.IH [OF 1]
  obtain rows' cs' ce' where
    2: "history_data (run calls ?w1) code = Some (Csv (Dated rows'))"
       "Unparsable \<notin> fst ` set rows'"
       "history_meta (run calls ?w1) code = Some (Meta (Some cs') (Some ce'))"
       "cs' \<le> cs1" "ce1 \<le> ce'"
    by blast
  with le1 have "cs' \<le> cs" "ce \<le> ce'" by simp_all
  with 2 show ?case unfolding c by auto
qed

text \<open>
  C3, as amended. For a stock whose persisted table is readable (the file holds a table
  with its date column and no date that fails to parse) and whose metadata holds both
  bounds, across any sequence of calls of \<open>get_stock_history\<close> (for this or any other
  stock, whatever the remote source answers, whether the calls succeed or fail) the
  persisted covered start never increases and the persisted covered end never
  decreases: after any first part of the sequence the bounds are within the initial
  ones, and after any further calls within those.
\<close>

theorem coverage_grows:
  assumes tab: "history_data w code = Some (Csv (Dated rows))"
      and ok: "Unparsable \<notin> fst ` set rows"
      and meta: "history_meta w code = Some (Meta (Some cs) (Some ce))"
  shows "\<exists>cs1 ce1 cs2 ce2.
           history_meta (run calls1 w) code = Some (Meta (Some cs1) (Some ce1))
         \<and> history_meta (run calls2 (run calls1 w)) code = Some (Meta (Some cs2) (Some ce2))
         \<and> cs2 \<le> cs1 \<and> cs1 \<le> cs \<and> ce \<le> ce1 \<and> ce1 \<le> ce2"
proof -
  from history_run [OF tab ok meta, of calls1]
  obtain rows1 cs1 ce1 where
    1: "history_data (run calls1 w) code = Some (Csv (Dated rows1))"
       "Unparsable \<notin> fst ` set rows1"
       "history_meta (run calls1 w) code = Some (Meta (Some cs1) (Some ce1))"
    and le1: "cs1 \<le> cs" "ce \<le> ce1"
    by blast
  from history_run [OF 1, of calls2]
  obtain cs2 ce2 where
    "history_meta (run calls2 (run calls1 w)) code = Some (Meta (Some cs2) (Some ce2))"
    "cs2 \<le> cs1" "ce1 \<le> ce2"
    by blast
  with 1 le1 show ?thesis by blast
qed

text \<open>
  C3 as stated fails beside an empty table file: the stored bounds are then not read
  (lines 142 to 148), and a successful call writes the requested interval as the new
  coverage. Here the persisted covered start moves from 1 January to 1 February.
\<close>

theorem truncated_table_resets_coverage_counterexample:
  "history_meta truncated_world ''000858'' = Some (Meta (Some 738521) (Some 738551))
   \<and> history_meta
     (snd (get_stock_history (example_env (Returns (Dated february_rows))) ''000858.sz''
             ''2023-02-01'' ''2023-02-10'' ''qfq'' truncated_world)) ''000858''
   = Some (Meta (Some 738552) (Some 738561))
   \<and> (738521 :: int) < 738552"
  by (simp add: history_eval parse_symbol_test_sz empty_world_def january_world_def
      truncated_world_def february_rows_def)

theorem coverage_grows_witness:
  "(\<exists>cs1 ce1 cs2 ce2.
      history_meta
        (run [Call (example_env (Returns (Dated february_rows))) ''000858.sz''
                ''2023-02-01'' ''2023-02-10'' ''qfq''] january_world) ''000858''
        = Some (Meta (Some cs1) (Some ce1))
    \<and> history_meta
        (run [Call (example_env (Returns (Dated overlap_rows))) ''000858.sz''
                ''2023-01-15'' ''2023-01-20'' ''qfq'']
           (run [Call (example_env (Returns (Dated february_rows))) ''000858.sz''
                   ''2023-02-01'' ''2023-02-10'' ''qfq''] january_world)) ''000858''
        = Some (Meta (Some cs2) (Some ce2))
    \<and> cs2 \<le> cs1 \<and> cs1 \<le> 738521 \<and> 738551 \<le> ce1 \<and> ce1 \<le> ce2)
   \<and> history_meta
        (run [Call (example_env (Returns (Dated february_rows))) ''000858.sz''
                ''2023-02-01'' ''2023-02-10'' ''qfq''] january_world) ''000858''
      = Some (Meta (Some 738521) (Some 738561))"
proof (rule conjI)
  show "\<exists>cs1 ce1 cs2 ce2.
      history_meta
        (run [Call (example_env (Returns (Dated february_rows))) ''000858.sz''
                ''2023-02-01'' ''2023-02-10'' ''qfq''] january_world) ''000858''
        = Some (Meta (Some cs1) (Some ce1))
    \<and> history_meta
        (run [Call (example_env (Returns (Dated overlap_rows))) ''000858.sz''
                ''2023-01-15'' ''2023-01-20'' ''qfq'']
           (run [Call (example_env (Returns (Dated february_rows))) ''000858.sz''
                   ''2023-02-01'' ''2023-02-10'' ''qfq''] january_world)) ''000858''
        = Some (Meta (Some cs2) (Some ce2))
    \<and> cs2 \<le> cs1 \<and> cs1 \<le> 738521 \<and> 738551 \<le> ce1 \<and> ce1 \<le> ce2"
  proof (rule coverage_grows)
    show "history_data january_world ''000858'' = Some (Csv (Dated january_rows))"
      by (simp add: january_world_def)
    show "Unparsable \<notin> fst ` set january_rows"
      by (simp add: january_rows_def)
    show "history_meta january_world ''000858'' = Some (Meta (Some 738521) (Some 738551))"
      by (simp add: january_world_def)
  qed
  show "history_meta
        (run [Call (example_env (Returns (Dated february_rows))) ''000858.sz''
                ''2023-02-01'' ''2023-02-10'' ''qfq''] january_world) ''000858''
      = Some (Meta (Some 738521) (Some 738561))"
    by (simp add: history_eval parse_symbol_test_sz empty_world_def january_world_def
        january_rows_def february_rows_def)
qed

section \<open>Reversed intervals\<close>

lemma between_reversed: "req_end < req_start \<Longrightarrow> between req_start req_end rows = []"
  by (auto simp: between_def ge_date_def le_date_def filter_empty_conv split: cell.splits)

lemma sort_values_Nil: "sort_values [] = []"
  by (simp add: sort_values_def)

lemma merge_cache_dated: "\<exists>rows'. merge_cache cached_df (Dated rows) = Dated rows'"
  by (cases cached_df) (simp_all add: merge_cache_def pd_concat_def)

lemma new_coverage_dates:
  assumes "\<forall>s e. m \<noteq> Some (MetaNaT s e)"
  shows "\<exists>p. new_coverage (fst (load_coverage m f)) (snd (load_coverage m f)) rs re = Some p"
proof (cases m)
  case None
  then show ?thesis by (simp add: load_coverage_def new_coverage_def)
next
  case (Some mt)
  show ?thesis
  proof (cases mt)
    case BadJson
    with Some show ?thesis
      by (simp add: load_coverage_def new_coverage_def split: option.splits)
  next
    case (Meta cs ce)
    with Some show ?thesis
      by (cases cs; cases ce)
         (simp_all add: load_coverage_def new_coverage_def min_bound_def max_bound_def
            split: option.splits)
  next
    case (MetaNaT s e)
    with Some assms show ?thesis by simp
  qed
qed

lemma cache_hit_dates:
  assumes "\<forall>s e. m \<noteq> Some (MetaNaT s e)"
  shows "cache_hit (fst (load_coverage m f)) (snd (load_coverage m f)) rs re f' \<noteq> Inl err"
proof (cases m)
  case None
  then show ?thesis by (simp add: load_coverage_def cache_hit_def)
next
  case (Some mt)
  show ?thesis
  proof (cases mt)
    case BadJson
    with Some show ?thesis
      by (simp add: load_coverage_def cache_hit_def split: option.splits)
  next
    case (Meta cs ce)
    with Some show ?thesis
      by (cases cs; cases ce)
         (auto simp: load_coverage_def cache_hit_def bound_le_def bound_ge_def
            split: option.splits bool.splits)
  next
    case (MetaNaT s e)
    with Some assms show ?thesis by simp
  qed
qed

lemma fetch_and_merge_calls:
  "remote_calls (snd (fetch_and_merge env pc s e adj rs re cs ce w))
   = remote_calls w @ [Hist pc (remove_dash s) (remove_dash e) adj]"
proof (cases "stock_zh_a_hist env pc (remove_dash s) (remove_dash e) adj")
  case (Raises x)
  then show ?thesis by (simp add: fetch_and_merge_def Let_def)
next
  case (Returns fetched)
  show ?thesis
  proof (cases "parse_new fetched")
    case None
    with Returns show ?thesis by (simp add: fetch_and_merge_def Let_def)
  next
    case (Some new_df)
    show ?thesis
    proof (cases "new_coverage cs ce rs re")
      case None
      with Returns Some show ?thesis by (simp add: fetch_and_merge_def Let_def)
    next
      case (Some p)
      with Returns \<open>parse_new fetched = Some new_df\<close> show ?thesis
        by (cases p; cases "merge_cache (load_cached (history_data w pc)) new_df")
           (simp_all add: fetch_and_merge_def Let_def)
    qed
  qed
qed

lemma fetch_and_merge_reversed_result:
  assumes rev: "req_end < req_start"
      and res: "fst (fetch_and_merge env pc s e adj req_start req_end cs ce w) = Inr df"
  shows "df = Dated []"
proof (cases "stock_zh_a_hist env pc (remove_dash s) (remove_dash e) adj")
  case (Raises x)
  with res show ?thesis by (simp add: fetch_and_merge_def Let_def)
next
  case (Returns fetched)
  show ?thesis
  proof (cases "parse_new fetched")
    case None
    with Returns res show ?thesis by (simp add: fetch_and_merge_def Let_def)
  next
    case (Some new_df)
    show ?thesis
    proof (cases "new_coverage cs ce req_start req_end")
      case None
      with Returns Some res show ?thesis by (simp add: fetch_and_merge_def Let_def)
    next
      case (Some p)
      with Returns \<open>parse_new fetched = Some new_df\<close> res show ?thesis
        by (cases p; cases "merge_cache (load_cached (history_data w pc)) new_df")
           (simp_all add: fetch_and_merge_def Let_def between_reversed [OF rev])
    qed
  qed
qed

lemma fetch_and_merge_reversed_ok:
  assumes rev: "req_end < req_start"
      and fetch: "stock_zh_a_hist env pc (remove_dash s) (remove_dash e) adj = Returns (Dated rows)"
      and ok: "Unparsable \<notin> fst ` set rows"
      and nc: "new_coverage cs ce req_start req_end = Some p"
  shows "fst (fetch_and_merge env pc s e adj req_start req_end cs ce w) = Inr (Dated [])"
proof -
  have p: "parse_new (Dated rows) = Some (Dated (map missing_to_NaT rows))"
    using ok by (simp add: parse_new_def to_datetime_col_ok)
  obtain rows' where m: "merge_cache (load_cached (history_data w pc))
                           (Dated (map missing_to_NaT rows)) = Dated rows'"
    using merge_cache_dated by blast
  show ?thesis
    using nc
    by (cases p) (simp add: fetch_and_merge_def Let_def fetch p m between_reversed [OF rev])
qed

text \<open>
  C7, as amended. \<open>get_stock_history\<close> makes no check of the order of the two dates.
  With the requested start after the requested end (both dates parsable, the stored
  bounds not \<open>NaT\<close>), the call is either served from the cache, returning an empty table
  with no remote call and no change of the state, or it invokes the remote fetch with
  the two bounds as given; whenever the call returns, it returns an empty table, and it
  does return when the remote source answers with a table whose dates parse.
\<close>

theorem reversed_interval_not_rejected:
  assumes sym: "parse_symbol symbol = Inr (pure_code, xq_code)"
      and rs: "to_datetime env start_date = Some req_start"
      and re: "to_datetime env end_date = Some req_end"
      and rev: "req_end < req_start"
      and nonat: "\<forall>s e. history_meta w pure_code \<noteq> Some (MetaNaT s e)"
  shows "(\<forall>df. fst (get_stock_history env symbol start_date end_date adjust w) = Inr df \<longrightarrow>
            df = Dated [])
       \<and> (get_stock_history env symbol start_date end_date adjust w = (Inr (Dated []), w)
          \<or> remote_calls (snd (get_stock_history env symbol start_date end_date adjust w))
              = remote_calls w @ [Hist pure_code (remove_dash start_date) (remove_dash end_date) adjust])
       \<and> (\<forall>rows. stock_zh_a_hist env pure_code (remove_dash start_date) (remove_dash end_date) adjust
                    = Returns (Dated rows)
              \<and> Unparsable \<notin> fst ` set rows \<longrightarrow>
            fst (get_stock_history env symbol start_date end_date adjust w) = Inr (Dated []))"
proof -
  let ?lc = "load_coverage (history_meta w pure_code) (history_data w pure_code)"
  let ?call = "get_stock_history env symbol start_date end_date adjust w"
  let ?fm = "fetch_and_merge env pure_code start_date end_date adjust req_start req_end
             (fst ?lc) (snd ?lc) w"
  show ?thesis
  proof (cases "cache_hit (fst ?lc) (snd ?lc) req_start req_end (history_data w pure_code)")
    case (Inl err)
    with cache_hit_dates [OF nonat] show ?thesis by blast
  next
    case (Inr hit)
    show ?thesis
    proof (cases hit)
      case None
      with Inr have miss: "cache_hit (fst ?lc) (snd ?lc) req_start req_end
                             (history_data w pure_code) = Inr None"
        by simp
      have call: "?call = ?fm"
        by (rule get_stock_history_miss [OF sym rs re miss])
      obtain p where nc: "new_coverage (fst ?lc) (snd ?lc) req_start req_end = Some p"
        using new_coverage_dates [OF nonat] by blast
      have a: "\<forall>df. fst ?call = Inr df \<longrightarrow> df = Dated []"
        unfolding call using fetch_and_merge_reversed_result [OF rev] by blast
      have b: "remote_calls (snd ?call)
                = remote_calls w @ [Hist pure_code (remove_dash start_date) (remove_dash end_date) adjust]"
        unfolding call by (rule fetch_and_merge_calls)
      have c: "\<forall>rows. stock_zh_a_hist env pure_code (remove_dash start_date) (remove_dash end_date) adjust
                      = Returns (Dated rows)
                \<and> Unparsable \<notin> fst ` set rows \<longrightarrow> fst ?call = Inr (Dated [])"
        unfolding call using fetch_and_merge_reversed_ok [OF rev _ _ nc] by blast
      from a b c show ?thesis by blast
    next
      case (Some out)
      with Inr have h: "cache_hit (fst ?lc) (snd ?lc) req_start req_end
                          (history_data w pure_code) = Inr (Some out)"
        by simp
      then have "out = []"
        by (auto simp: cache_hit_def between_reversed [OF rev] sort_values_Nil
            split: option.splits bool.splits)
      with h have "?call = (Inr (Dated []), w)"
        by (simp add: get_stock_history_def sym rs re case_prod_beta)
      then show ?thesis by simp
    qed
  qed
qed

text \<open>
  C7 as stated fails: on an empty data directory a call with start 10 February and end
  1 February succeeds, after a remote call with these bounds, and persists the fetched
  table and a coverage whose start lies after its end.
\<close>

theorem reversed_interval_accepted_counterexample:
  "get_stock_history (example_env (Returns (Dated february_rows))) ''000858.sz''
     ''2023-02-10'' ''2023-02-01'' ''qfq'' empty_world
   = (Inr (Dated []),
      empty_world\<lparr>history_data := (\<lambda>code. None)(''000858'' := Some (Csv (Dated february_rows))),
                  history_meta := (\<lambda>code. None)(''000858'' := Some (Meta (Some 738561) (Some 738552))),
                  remote_calls := [Hist ''000858'' ''20230210'' ''20230201'' ''qfq'']\<rparr>)"
  by (simp add: history_eval parse_symbol_test_sz empty_world_def february_rows_def)

theorem reversed_interval_not_rejected_witness:
  "fst (get_stock_history (example_env (Returns (Dated february_rows))) ''000858.sz''
          ''2023-02-10'' ''2023-02-01'' ''qfq'' january_world) = Inr (Dated [])
   \<and> remote_calls
       (snd (get_stock_history (example_env (Returns (Dated february_rows))) ''000858.sz''
               ''2023-02-10'' ''2023-02-01'' ''qfq'' january_world))
     = [Hist ''000858'' ''20230210'' ''20230201'' ''qfq'']"
proof -
  let ?env = "example_env (Returns (Dated february_rows))"
  have rs: "to_datetime ?env ''2023-02-10'' = Some 738561"
    and re: "to_datetime ?env ''2023-02-01'' = Some 738552"
    by (simp_all add: example_eval)
  have fetch: "stock_zh_a_hist ?env ''000858'' (remove_dash ''2023-02-10'')
                 (remove_dash ''2023-02-01'') ''qfq'' = Returns (Dated february_rows)"
    by (simp add: example_env_def)
  have ok: "Unparsable \<notin> fst ` set february_rows"
    by (simp add: february_rows_def)
  have calls: "remote_calls january_world = []"
    by (simp add: january_world_def empty_world_def)
  have dash: "remove_dash ''2023-02-10'' = ''20230210''" "remove_dash ''2023-02-01'' = ''20230201''"
    by (simp_all add: remove_dash_def)
  have rev: "(738552 :: int) < 738561" by simp
  have nonat: "\<forall>s e. history_meta january_world ''000858'' \<noteq> Some (MetaNaT s e)"
    by (simp add: january_world_def)
  note inst = reversed_interval_not_rejected [OF parse_symbol_test_sz rs re rev nonat, of "''qfq''"]
  from inst fetch ok
  have res: "fst (get_stock_history ?env ''000858.sz'' ''2023-02-10'' ''2023-02-01'' ''qfq''
                    january_world) = Inr (Dated [])"
    by blast
  have changed: "get_stock_history ?env ''000858.sz'' ''2023-02-10'' ''2023-02-01'' ''qfq''
                    january_world \<noteq> (Inr (Dated []), january_world)"
  proof
    assume "get_stock_history ?env ''000858.sz'' ''2023-02-10'' ''2023-02-01'' ''qfq''
                    january_world = (Inr (Dated []), january_world)"
    then have "history_meta (snd (get_stock_history ?env ''000858.sz'' ''2023-02-10''
                 ''2023-02-01'' ''qfq'' january_world)) ''000858''
               = history_meta january_world ''000858''"
      by simp
    then show False
      by (simp add: history_eval parse_symbol_test_sz empty_world_def january_world_def
          january_rows_def february_rows_def)
  qed
  from inst changed
  have "remote_calls (snd (get_stock_history ?env ''000858.sz'' ''2023-02-10'' ''2023-02-01''
           ''qfq'' january_world))
        = remote_calls january_world @ [Hist ''000858'' (remove_dash ''2023-02-10'')
             (remove_dash ''2023-02-01'') ''qfq'']"
    by blast
  with res show ?thesis by (simp add: calls dash)
qed

section \<open>A stored bound that is NaT\<close>

text \<open>
  With a stored covered start that is \<open>NaT\<close> beside a covered end, the comparison of
  line 155 raises: the call fails with \<open>TypeError\<close>, makes no remote call and writes
  nothing. With a stored covered end that is \<open>NaT\<close> and a covered start after the
  requested start, line 155 stops at the first comparison; the call fetches and writes
  the table, and \<open>max\<close> of line 227 raises before the metadata is written.
\<close>

lemma nat_bound_type_error:
  "get_stock_history (example_env (Returns (Dated february_rows))) ''000858.sz''
     ''2023-02-01'' ''2023-02-10'' ''qfq'' nat_world = (Inl TypeError, nat_world)"
  by (simp add: history_eval parse_symbol_test_sz nat_world_def january_world_def
      empty_world_def)

lemma nat_end_type_error_after_write:
  "get_stock_history (example_env (Returns (Dated february_rows))) ''000858.sz''
     ''2023-01-01'' ''2023-02-10'' ''qfq''
     (january_world\<lparr>history_meta :=
        (\<lambda>code. None)(''000858'' := Some (MetaNaT (On 738535) (Some NaTBound)))\<rparr>)
   = (Inl TypeError,
      january_world\<lparr>history_meta :=
          (\<lambda>code. None)(''000858'' := Some (MetaNaT (On 738535) (Some NaTBound))),
        history_data := (\<lambda>code. None)(''000858'' := Some (Csv (Dated
          [(Date 738521, 1), (Date 738535, 2), (Date 738540, 3), (Date 738551, 4),
           (Date 738552, 5), (Date 738561, 6)]))),
        remote_calls := [Hist ''000858'' ''20230101'' ''20230210'' ''qfq'']\<rparr>)"
  by (simp add: history_eval parse_symbol_test_sz january_world_def empty_world_def
      january_rows_def february_rows_def)

end
